theory Spec2Isabelle
  imports Complex_Main "HOL-Library.Word" "HOL-Library.Sublist" "HOL-Library.AList"
begin

section \<open>JavaScript values\<close>

text \<open>
  A JavaScript string is a sequence of UTF-16 code units; \<open>s.length\<close> counts code units.
  A \<open>Uint8Array\<close> is a list of bytes.
\<close>

type_synonym byte = "8 word"
type_synonym jsstring = "16 word list"

text \<open>An ASCII (or Latin-1) literal of the source, as a JavaScript string.\<close>

definition js :: "string \<Rightarrow> jsstring" where
  "js s = map (\<lambda>c. of_nat (of_char c)) s"

text \<open>
  The values \<open>JSON.parse\<close> produces, and \<open>undefined\<close> for what is absent. An object is
  the list of its own properties.
\<close>

datatype jsval =
    JUndefined
  | JNull
  | JBool bool
  | JNum rat
  | JStr jsstring
  | JArr "jsval list"
  | JObj "(jsstring \<times> jsval) list"

text \<open>Exceptions, by kind; \<open>e.message\<close> is read through the platform (see \<open>lib\<close>).\<close>

datatype js_error = TypeError | SyntaxError | HexError | CryptoError | NetworkError

text \<open>The truthiness test of \<open>!v\<close>, \<open>v && ...\<close> and \<open>if (v)\<close>.\<close>

fun truthy :: "jsval \<Rightarrow> bool" where
  "truthy JUndefined = False"
| "truthy JNull = False"
| "truthy (JBool b) = b"
| "truthy (JNum n) = (n \<noteq> 0)"
| "truthy (JStr s) = (s \<noteq> [])"
| "truthy (JArr _) = True"
| "truthy (JObj _) = True"

text \<open>
  Reading a property, \<open>v.name\<close> or \<open>const { name } = v\<close>: a TypeError on \<open>null\<close> and
  \<open>undefined\<close>, the own property of an object, \<open>undefined\<close> when there is none. The
  source reads only the names openseal, result, signature, pub_key, a_hash and b_hash,
  none of which a string, number, boolean or array has.
\<close>

fun js_get :: "jsval \<Rightarrow> jsstring \<Rightarrow> js_error + jsval" where
  "js_get JUndefined k = Inl TypeError"
| "js_get JNull k = Inl TypeError"
| "js_get (JObj fs) k = Inr (case map_of fs k of None \<Rightarrow> JUndefined | Some v \<Rightarrow> v)"
| "js_get v k = Inr JUndefined"

section \<open>Bytes, hex and UTF-8\<close>

text \<open>\<open>bytesToHex\<close> of @noble/hashes: two lower-case hex digits per byte.\<close>

definition hex_digit :: "nat \<Rightarrow> 16 word" where
  "hex_digit n = (if n < 10 then of_nat (48 + n) else of_nat (87 + n))"

definition bytesToHex :: "byte list \<Rightarrow> jsstring" where
  "bytesToHex bs = concat (map (\<lambda>b. [hex_digit (unat b div 16), hex_digit (unat b mod 16)]) bs)"

text \<open>
  \<open>hexToBytes\<close> of @noble/hashes: throws unless its argument is a string of even length
  made of hex digits of either case.
\<close>

definition asciiToBase16 :: "16 word \<Rightarrow> nat option" where
  "asciiToBase16 c =
     (let n = unat c in
      if 48 \<le> n \<and> n \<le> 57 then Some (n - 48)
      else if 65 \<le> n \<and> n \<le> 70 then Some (n - 55)
      else if 97 \<le> n \<and> n \<le> 102 then Some (n - 87)
      else None)"

fun hex_pairs :: "jsstring \<Rightarrow> js_error + byte list" where
  "hex_pairs [] = Inr []"
| "hex_pairs [c] = Inl HexError"
| "hex_pairs (c # d # cs) =
     (case (asciiToBase16 c, asciiToBase16 d) of
        (Some n1, Some n2) \<Rightarrow>
          (case hex_pairs cs of Inl e \<Rightarrow> Inl e | Inr bs \<Rightarrow> Inr (of_nat (n1 * 16 + n2) # bs))
      | _ \<Rightarrow> Inl HexError)"

fun hexToBytes :: "jsval \<Rightarrow> js_error + byte list" where
  "hexToBytes (JStr s) = hex_pairs s"
| "hexToBytes v = Inl HexError"

text \<open>
  \<open>new TextEncoder().encode(s)\<close>: the UTF-8 encoding of the string's code points, a
  surrogate pair read as one code point and a lone surrogate as U+FFFD.
\<close>

definition is_high_surrogate :: "16 word \<Rightarrow> bool" where
  "is_high_surrogate c = (0xD800 \<le> unat c \<and> unat c \<le> 0xDBFF)"

definition is_low_surrogate :: "16 word \<Rightarrow> bool" where
  "is_low_surrogate c = (0xDC00 \<le> unat c \<and> unat c \<le> 0xDFFF)"

definition scalar_of :: "16 word \<Rightarrow> nat" where
  "scalar_of c = (if is_high_surrogate c \<or> is_low_surrogate c then 0xFFFD else unat c)"

fun code_points :: "jsstring \<Rightarrow> nat list" where
  "code_points [] = []"
| "code_points [c] = [scalar_of c]"
| "code_points (c # d # cs) =
     (if is_high_surrogate c \<and> is_low_surrogate d
      then (0x10000 + (unat c - 0xD800) * 1024 + (unat d - 0xDC00)) # code_points cs
      else scalar_of c # code_points (d # cs))"

definition utf8_bytes :: "nat \<Rightarrow> byte list" where
  "utf8_bytes cp =
     (if cp < 0x80 then [of_nat cp]
      else if cp < 0x800 then [of_nat (0xC0 + cp div 64), of_nat (0x80 + cp mod 64)]
      else if cp < 0x10000 then
        [of_nat (0xE0 + cp div 4096), of_nat (0x80 + cp div 64 mod 64), of_nat (0x80 + cp mod 64)]
      else
        [of_nat (0xF0 + cp div 262144), of_nat (0x80 + cp div 4096 mod 64),
         of_nat (0x80 + cp div 64 mod 64), of_nat (0x80 + cp mod 64)])"

definition TextEncoder_encode :: "jsstring \<Rightarrow> byte list" where
  "TextEncoder_encode s = concat (map utf8_bytes (code_points s))"

section \<open>The platform and the libraries\<close>

text \<open>
  What the source calls and this repository does not define: the BLAKE3 hash and the
  Ed25519 verification of the @noble packages (verification throws on a signature or
  key of the wrong length), \<open>JSON.stringify\<close> and \<open>JSON.parse\<close>, the string conversion
  of a template literal for a value that is not a string, the message of an exception
  and HMAC-SHA256 in hex.
\<close>

record lib =
  blake3 :: "byte list \<Rightarrow> byte list"
  ed_verify :: "byte list \<Rightarrow> byte list \<Rightarrow> byte list \<Rightarrow> js_error + bool"
  JSON_stringify :: "jsval \<Rightarrow> jsstring"
  JSON_parse :: "jsstring \<Rightarrow> js_error + jsval"
  ToString :: "jsval \<Rightarrow> js_error + jsstring"
  message_of :: "js_error \<Rightarrow> jsstring"
  hmac_sha256_hex :: "jsstring \<Rightarrow> jsstring \<Rightarrow> jsstring"

text \<open>One \<open>${v}\<close> of a template literal.\<close>

definition template_part :: "lib \<Rightarrow> jsval \<Rightarrow> js_error + jsstring" where
  "template_part L v = (case v of JStr s \<Rightarrow> Inr s | _ \<Rightarrow> ToString L v)"

section \<open>OpensealVerifier\<close>

record VerificationResult =
  valid :: bool
  signatureVerified :: bool
  identityVerified :: bool
  message :: jsstring

definition failure :: "jsstring \<Rightarrow> VerificationResult" where
  "failure m = \<lparr>valid = False, signatureVerified = False, identityVerified = False, message = m\<rparr>"

text \<open>
  \<open>blake3.create({})\<close>, \<open>update\<close> and \<open>digest\<close>: the hasher collects the bytes it is
  given and hashes them at the end.
\<close>

definition hasher_create :: "byte list" where
  "hasher_create = []"

definition hasher_update :: "byte list \<Rightarrow> byte list \<Rightarrow> byte list" where
  "hasher_update h bs = h @ bs"

definition hasher_digest :: "lib \<Rightarrow> byte list \<Rightarrow> byte list" where
  "hasher_digest L h = blake3 L h"

text \<open>\<open>OpensealVerifier.computeAHash(rootHashHex, wax)\<close>.\<close>

definition computeAHash :: "lib \<Rightarrow> jsstring \<Rightarrow> jsstring \<Rightarrow> js_error + jsstring" where
  "computeAHash L rootHashHex wax =
     (case hexToBytes (JStr rootHashHex) of
        Inl e \<Rightarrow> Inl e
      | Inr rootHashBytes \<Rightarrow>
          (let waxBytes = TextEncoder_encode wax;
               prefixBytes = TextEncoder_encode (js ''OPENSEAL_BLINDED_IDENTITY'');
               hasher = hasher_create;
               hasher = hasher_update hasher prefixBytes;
               hasher = hasher_update hasher rootHashBytes;
               hasher = hasher_update hasher waxBytes
           in Inr (bytesToHex (hasher_digest L hasher))))"


text \<open>Sequencing of calls that may throw: the first exception ends the block.\<close>

definition then_do :: "'e + 'a \<Rightarrow> ('a \<Rightarrow> 'e + 'b) \<Rightarrow> 'e + 'b" where
  "then_do m f = (case m of Inl e \<Rightarrow> Inl e | Inr x \<Rightarrow> f x)"

text \<open>\<open>try { ... } catch (e) { ... }\<close>: the handler runs on what the body threw.\<close>

definition try_catch :: "'e + 'a \<Rightarrow> ('e \<Rightarrow> 'e + 'a) \<Rightarrow> 'e + 'a" where
  "try_catch body handler = (case body of Inl e \<Rightarrow> handler e | Inr v \<Rightarrow> Inr v)"

text \<open>
  The body of the \<open>try\<close> block of \<open>OpensealVerifier.verifyNative(response, wax,
  expectedRootHash)\<close>, in the order of the source; \<open>Inl e\<close> is the exception \<open>e\<close>
  thrown inside it. The response is whatever \<open>JSON.parse\<close> gave the caller;
  \<open>expectedRootHash\<close> is optional.
\<close>

definition valid_message :: jsstring where
  "valid_message = 0x2705 # js '' SEAL VALID (Native)''"

definition mismatch_message :: jsstring where
  "mismatch_message =
     js ''Identity Mismatch: Code execution identity does not match expected root hash (Native).''"

text \<open>Step 4 of the source, after the signature has verified.\<close>

definition verify_identity ::
  "lib \<Rightarrow> jsstring \<Rightarrow> jsstring option \<Rightarrow> jsval \<Rightarrow> js_error + VerificationResult" where
  "verify_identity L wax expectedRootHash a_hash =
     then_do
       (case expectedRootHash of
          None \<Rightarrow> Inr True
        | Some rootHash \<Rightarrow>
            if rootHash \<noteq> []
            then then_do (computeAHash L rootHash wax)
                   (\<lambda>calculatedAHash. Inr (if JStr calculatedAHash \<noteq> a_hash then False else True))
            else Inr True)
       (\<lambda>isIdentityValid.
          if (expectedRootHash \<noteq> None \<and> expectedRootHash \<noteq> Some []) \<and> \<not> isIdentityValid
          then Inr \<lparr>valid = False, signatureVerified = True, identityVerified = False,
                    message = mismatch_message\<rparr>
          else Inr \<lparr>valid = True, signatureVerified = True, identityVerified = True,
                    message = valid_message\<rparr>)"

text \<open>Steps 1 to 3 of the source, once the six fields are known to be there.\<close>

definition verify_signature ::
  "lib \<Rightarrow> jsstring \<Rightarrow> jsstring option \<Rightarrow> jsval \<Rightarrow> jsval \<Rightarrow> jsval \<Rightarrow> jsval \<Rightarrow> jsval \<Rightarrow>
     js_error + VerificationResult" where
  "verify_signature L wax expectedRootHash result signature pub_key a_hash b_hash =
     (let resultStr = (case result of JStr s \<Rightarrow> s | _ \<Rightarrow> JSON_stringify L result);
          resultBytes = TextEncoder_encode resultStr;
          resultHashBytes = blake3 L resultBytes;
          resultHashHex = bytesToHex resultHashBytes
      in
      then_do (template_part L a_hash) (\<lambda>a_str.
      then_do (template_part L b_hash) (\<lambda>b_str.
      let payloadString = wax @ a_str @ b_str @ resultHashHex;
          payloadBytes = TextEncoder_encode payloadString
      in
      then_do (hexToBytes signature) (\<lambda>signatureBytes.
      then_do (hexToBytes pub_key) (\<lambda>pubKeyBytes.
      then_do (ed_verify L signatureBytes payloadBytes pubKeyBytes) (\<lambda>isValidSignature.
      if \<not> isValidSignature
      then Inr (failure (js ''Signature verification failed''))
      else verify_identity L wax expectedRootHash a_hash))))))"

definition verifyNative_try ::
  "lib \<Rightarrow> jsval \<Rightarrow> jsstring \<Rightarrow> jsstring option \<Rightarrow> js_error + VerificationResult" where
  "verifyNative_try L response wax expectedRootHash =
     then_do (js_get response (js ''openseal'')) (\<lambda>openseal.
     then_do (js_get response (js ''result'')) (\<lambda>result.
     if \<not> truthy openseal \<or> \<not> truthy result
     then Inr (failure (js ''Missing openseal or result fields''))
     else
     then_do (js_get openseal (js ''signature'')) (\<lambda>signature.
     then_do (js_get openseal (js ''pub_key'')) (\<lambda>pub_key.
     then_do (js_get openseal (js ''a_hash'')) (\<lambda>a_hash.
     then_do (js_get openseal (js ''b_hash'')) (\<lambda>b_hash.
     if \<not> truthy signature \<or> \<not> truthy pub_key \<or> \<not> truthy a_hash \<or> \<not> truthy b_hash
     then Inr (failure (js ''Incomplete openseal metadata''))
     else verify_signature L wax expectedRootHash result signature pub_key a_hash b_hash))))))"

text \<open>
  \<open>OpensealVerifier.verifyNative\<close>: \<open>Inr r\<close> is the promise resolved with \<open>r\<close>, \<open>Inl e\<close>
  the promise rejected with \<open>e\<close>.
\<close>

definition verifyNative ::
  "lib \<Rightarrow> jsval \<Rightarrow> jsstring \<Rightarrow> jsstring option \<Rightarrow> js_error + VerificationResult" where
  "verifyNative L response wax expectedRootHash =
     try_catch (verifyNative_try L response wax expectedRootHash)
       (\<lambda>e. Inr (failure (js ''Native Verification Error: '' @ message_of L e)))"

subsection \<open>The protocol in the specification's words\<close>

text \<open>
  The blinded identity as the specification writes it:
  hex(Hash("OPENSEAL_BLINDED_IDENTITY" || rootHash bytes || nonce bytes)), one hash of
  one concatenation.
\<close>

definition computeBlindedHash :: "lib \<Rightarrow> jsstring \<Rightarrow> jsstring \<Rightarrow> js_error + jsstring" where
  "computeBlindedHash L rootHashHex nonce =
     (case hexToBytes (JStr rootHashHex) of
        Inl e \<Rightarrow> Inl e
      | Inr rootHashBytes \<Rightarrow>
          Inr (bytesToHex (blake3 L
                 (TextEncoder_encode (js ''OPENSEAL_BLINDED_IDENTITY'') @ rootHashBytes @
                  TextEncoder_encode nonce))))"

text \<open>
  The signed payload of the specification: nonce || a_hash || b_hash || hex(Hash(serialize
  result)), where \<open>serialize\<close> is the identity on strings and JSON stringification
  otherwise.
\<close>

definition serialize :: "lib \<Rightarrow> jsval \<Rightarrow> jsstring" where
  "serialize L result = (case result of JStr s \<Rightarrow> s | _ \<Rightarrow> JSON_stringify L result)"

definition signed_payload :: "lib \<Rightarrow> jsstring \<Rightarrow> jsstring \<Rightarrow> jsstring \<Rightarrow> jsval \<Rightarrow> byte list" where
  "signed_payload L nonce a_hash b_hash result =
     TextEncoder_encode
       (nonce @ a_hash @ b_hash @ bytesToHex (blake3 L (TextEncoder_encode (serialize L result))))"

text \<open>The signature, given in hex, verifies under the key, given in hex, over the payload.\<close>

definition signature_verifies :: "lib \<Rightarrow> jsstring \<Rightarrow> jsstring \<Rightarrow> byte list \<Rightarrow> bool" where
  "signature_verifies L signature pub_key payload =
     (case hex_pairs signature of
        Inl e \<Rightarrow> False
      | Inr signatureBytes \<Rightarrow>
          (case hex_pairs pub_key of
             Inl e \<Rightarrow> False
           | Inr pubKeyBytes \<Rightarrow> ed_verify L signatureBytes payload pubKeyBytes = Inr True))"

text \<open>
  The response has the field \<open>result\<close> and an \<open>openseal\<close> object whose four fields are
  the given strings (interface \<open>OpenSealResponse\<close>).
\<close>

definition envelope_fields ::
  "jsval \<Rightarrow> jsval \<Rightarrow> jsstring \<Rightarrow> jsstring \<Rightarrow> jsstring \<Rightarrow> jsstring \<Rightarrow> bool" where
  "envelope_fields response result signature pub_key a_hash b_hash =
     (js_get response (js ''result'') = Inr result \<and>
      (\<exists>openseal.
         js_get response (js ''openseal'') = Inr openseal \<and>
         js_get openseal (js ''signature'') = Inr (JStr signature) \<and>
         js_get openseal (js ''pub_key'') = Inr (JStr pub_key) \<and>
         js_get openseal (js ''a_hash'') = Inr (JStr a_hash) \<and>
         js_get openseal (js ''b_hash'') = Inr (JStr b_hash)))"

subsection \<open>Concrete inputs\<close>

text \<open>The object \<open>{ result, openseal: { signature, pub_key, a_hash, b_hash } }\<close>.\<close>

definition seal :: "jsstring \<Rightarrow> jsstring \<Rightarrow> jsstring \<Rightarrow> jsstring \<Rightarrow> jsval" where
  "seal signature pub_key a_hash b_hash =
     JObj [(js ''signature'', JStr signature), (js ''pub_key'', JStr pub_key),
           (js ''a_hash'', JStr a_hash), (js ''b_hash'', JStr b_hash)]"

definition envelope :: "jsval \<Rightarrow> jsval \<Rightarrow> jsval" where
  "envelope result openseal = JObj [(js ''result'', result), (js ''openseal'', openseal)]"

text \<open>
  A small platform on which the model runs: the hash keeps the first two bytes of its
  input, a signature is valid when it is the key followed by the first byte of the
  message, and \<open>JSON.parse\<close> knows three texts.
\<close>

definition test_lib :: lib where
  "test_lib =
     \<lparr>blake3 = (\<lambda>bs. take 2 (bs @ [0, 0])),
      ed_verify = (\<lambda>sg msg pk.
        if sg = [] \<or> pk = [] then Inl CryptoError else Inr (sg = pk @ take 1 msg)),
      JSON_stringify = (\<lambda>v. if v = JNum 0 then js ''0'' else js ''null''),
      JSON_parse = (\<lambda>s.
        if s = js ''{}'' then Inr (JObj [])
        else if s = js ''0'' then Inr (JNum 0)
        else if s = [0x22, 0xE9, 0x22] then Inr (JStr [0xE9])
        else Inl SyntaxError),
      ToString = (\<lambda>v. Inr (js ''[object Object]'')),
      message_of = (\<lambda>e. js ''error''),
      hmac_sha256_hex = (\<lambda>k p. js ''00'')\<rparr>"

section \<open>ProxyService\<close>

text \<open>
  \<open>s.toLowerCase()\<close> and \<open>s.startsWith(p)\<close>. The lower-casing is that of the ASCII
  letters, which is all the name of an HTTP header can hold.
\<close>

definition toLowerCase :: "jsstring \<Rightarrow> jsstring" where
  "toLowerCase s = map (\<lambda>c. if 65 \<le> unat c \<and> unat c \<le> 90 then c + 32 else c) s"

definition startsWith :: "jsstring \<Rightarrow> jsstring \<Rightarrow> bool" where
  "startsWith s p = prefix p s"

text \<open>\<open>n.toString()\<close> of a non-negative integer.\<close>

function show_nat :: "nat \<Rightarrow> jsstring" where
  "show_nat n = (if n < 10 then [of_nat (48 + n)] else show_nat (n div 10) @ [of_nat (48 + n mod 10)])"
  by pat_completeness auto
termination
  by (relation "measure id") auto

declare show_nat.simps [simp del]

text \<open>\<open>s.split(c)\<close> for a separator of one character.\<close>

fun split_char :: "16 word \<Rightarrow> jsstring \<Rightarrow> jsstring list" where
  "split_char c [] = [[]]"
| "split_char c (x # xs) =
     (if x = c then [] # split_char c xs
      else (case split_char c xs of [] \<Rightarrow> [[x]] | p # ps \<Rightarrow> (x # p) # ps))"

text \<open>The truthiness of an optional string parameter.\<close>

definition str_truthy :: "jsstring option \<Rightarrow> bool" where
  "str_truthy s = (case s of None \<Rightarrow> False | Some t \<Rightarrow> t \<noteq> [])"

text \<open>
  The request object: the entries of \<open>req.headers\<close> in the order of \<open>Object.keys\<close>, the
  method, the parsed body and \<open>originalUrl\<close>, which Express sets on the requests it routes
  and which an object built by hand (the playground route) does not have.
\<close>

record request =
  req_headers :: "(jsstring \<times> jsstring) list"
  req_method :: jsstring
  req_body :: jsval
  req_originalUrl :: "jsstring option"

text \<open>What \<open>fetch\<close> is called with, and what it resolves to.\<close>

record outbound =
  out_url :: jsstring
  out_method :: jsstring
  out_headers :: "(jsstring \<times> jsstring) list"
  out_body :: "jsstring option"

record response =
  res_status :: nat
  res_text :: "js_error + jsstring"
  res_headers :: "(jsstring \<times> jsstring) list"

text \<open>
  \<open>response.headers.get(name)\<close>: the name is matched without regard to case, the values
  of repeated header lines are joined with a comma and a space, and the answer is
  \<open>null\<close> when there is no such line.
\<close>

definition headers_get :: "(jsstring \<times> jsstring) list \<Rightarrow> jsstring \<Rightarrow> jsstring option" where
  "headers_get hs name =
     (case map snd (filter (\<lambda>kv. toLowerCase (fst kv) = toLowerCase name) hs) of
        [] \<Rightarrow> None
      | v # vs \<Rightarrow> Some (foldl (\<lambda>joined x. joined @ js '', '' @ x) v vs))"

text \<open>
  What one call reads from outside: the clock, the sixteen random bytes, the latency
  \<open>Math.round(endTime - startTime)\<close> of the two readings of \<open>performance.now()\<close> (a
  computation on floating-point numbers, taken as the platform gives it), the network,
  and the OpenSeal CLI binary when it is installed (the outcome of \<open>verifyWithCli\<close>,
  which catches what its body throws).
\<close>

record world =
  Date_now :: nat
  randomBytes16 :: "128 word"
  rounded_latency :: int
  fetch :: "outbound \<Rightarrow> js_error + response"
  verifyWithCli :: "(jsval \<Rightarrow> jsstring \<Rightarrow> jsstring option \<Rightarrow> VerificationResult) option"

text \<open>\<open>OpensealVerifier.verify\<close>: the CLI binary if it exists, the native verifier otherwise.\<close>

definition verify ::
  "lib \<Rightarrow> world \<Rightarrow> jsval \<Rightarrow> jsstring \<Rightarrow> jsstring option \<Rightarrow> js_error + VerificationResult" where
  "verify L W response wax expectedRootHash =
     (case verifyWithCli W of
        Some cli \<Rightarrow> Inr (cli response wax expectedRootHash)
      | None \<Rightarrow> verifyNative L response wax expectedRootHash)"

record telemetry =
  latencyMs :: int
  responseSizeBytes :: nat
  contentType :: jsstring
  integrityCheck :: bool

record openseal_meta =
  verified :: bool
  seal_message :: jsstring

record ProxyResult =
  status :: nat
  data :: jsval
  telemetry :: telemetry
  openseal :: "openseal_meta option"

definition SAFE_HEADERS :: "jsstring set" where
  "SAFE_HEADERS =
     {js ''accept'', js ''accept-encoding'', js ''accept-language'', js ''content-type'',
      js ''content-length'', js ''user-agent'', js ''cache-control''}"

text \<open>The body of the \<open>forEach\<close> over the keys of \<open>req.headers\<close>.\<close>

definition blocked_header :: "jsstring \<Rightarrow> bool" where
  "blocked_header lowerKey =
     (startsWith lowerKey (js ''x-forwarded'') \<or>
      startsWith lowerKey (js ''x-real-ip'') \<or>
      startsWith lowerKey (js ''x-original'') \<or>
      startsWith lowerKey (js ''x-rewrite'') \<or>
      lowerKey = js ''host'' \<or>
      lowerKey = js ''connection'')"

definition filter_header ::
  "jsstring \<times> jsstring \<Rightarrow> (jsstring \<times> jsstring) list \<Rightarrow> (jsstring \<times> jsstring) list" where
  "filter_header kv forwardHeaders =
     (let key = fst kv; lowerKey = toLowerCase key in
      if blocked_header lowerKey then forwardHeaders
      else if lowerKey \<in> SAFE_HEADERS then AList.update key (snd kv) forwardHeaders
      else forwardHeaders)"

text \<open>
  \<open>requestBody\<close>: \<open>JSON.stringify(req.body)\<close> for POST, PUT and PATCH, which is
  \<open>undefined\<close> for an undefined body.
\<close>

definition request_body :: "lib \<Rightarrow> request \<Rightarrow> jsstring option" where
  "request_body L req =
     (if req_method req \<in> {js ''POST'', js ''PUT'', js ''PATCH''}
      then (if req_body req = JUndefined then None else Some (JSON_stringify L (req_body req)))
      else None)"

text \<open>\<open>randomBytes(16).toString('hex')\<close>, generated when a root hash is configured.\<close>

definition bytes16 :: "128 word \<Rightarrow> byte list" where
  "bytes16 w = map (\<lambda>i. ucast (drop_bit (8 * (15 - i)) w)) [0..<16]"

definition new_wax :: "world \<Rightarrow> jsstring option \<Rightarrow> jsstring option" where
  "new_wax W opensealRootHash =
     (if str_truthy opensealRootHash then Some (bytesToHex (bytes16 (randomBytes16 W))) else None)"

text \<open>The header object handed to \<open>fetch\<close>, built in the order of the source.\<close>

definition forward_headers ::
  "lib \<Rightarrow> world \<Rightarrow> request \<Rightarrow> jsstring \<Rightarrow> jsstring option \<Rightarrow> jsstring option \<Rightarrow>
     (jsstring \<times> jsstring) list" where
  "forward_headers L W req serviceName signingSecret opensealRootHash =
     (let forwardHeaders = fold filter_header (req_headers req) [];
          forwardHeaders = AList.update (js ''x-forwarded-by'') (js ''highstation'') forwardHeaders;
          forwardHeaders = AList.update (js ''x-service-name'') serviceName forwardHeaders;
          timestamp = show_nat (Date_now W div 1000);
          forwardHeaders = AList.update (js ''x-highstation-time'') timestamp forwardHeaders;
          requestBody = request_body L req;
          forwardHeaders =
            (if str_truthy signingSecret
             then (let payload = (if str_truthy requestBody
                                  then timestamp @ js ''.'' @ the requestBody else timestamp);
                       signature = hmac_sha256_hex L (the signingSecret) payload
                   in AList.update (js ''x-highstation-signature'')
                        (js ''t='' @ timestamp @ js '',v1='' @ signature) forwardHeaders)
             else forwardHeaders)
      in (case new_wax W opensealRootHash of
            Some wax \<Rightarrow> AList.update (js ''X-OpenSeal-Wax'') wax forwardHeaders
          | None \<Rightarrow> forwardHeaders))"

text \<open>
  The target URL: the upstream URL without one trailing slash, the path, the query.
  \<open>req.originalUrl.split('?')\<close> throws a TypeError when there is no \<open>originalUrl\<close>.
\<close>

definition target_url :: "request \<Rightarrow> jsstring \<Rightarrow> jsstring \<Rightarrow> js_error + jsstring" where
  "target_url req upstreamUrl subPath =
     (case req_originalUrl req of
        None \<Rightarrow> Inl TypeError
      | Some originalUrl \<Rightarrow>
     (let queryString = (case split_char 0x3F originalUrl of
                           _ # q # _ \<Rightarrow> Some q | _ \<Rightarrow> None);
          finalPath = (if str_truthy queryString then subPath @ js ''?'' @ the queryString
                       else subPath);
          baseUrl = (if upstreamUrl \<noteq> [] \<and> last upstreamUrl = 0x2F then butlast upstreamUrl
                     else upstreamUrl);
          relativePath = (if startsWith finalPath (js ''/'') then finalPath
                          else js ''/'' @ finalPath)
      in Inr (baseUrl @ relativePath)))"

text \<open>What \<open>fetch\<close> is called with, when the target URL could be built.\<close>

definition build_request ::
  "lib \<Rightarrow> world \<Rightarrow> request \<Rightarrow> jsstring \<Rightarrow> jsstring \<Rightarrow> jsstring \<Rightarrow> jsstring option \<Rightarrow>
     jsstring option \<Rightarrow> js_error + outbound" where
  "build_request L W req upstreamUrl serviceName subPath signingSecret opensealRootHash =
     then_do (target_url req upstreamUrl subPath) (\<lambda>targetUrl.
       Inr \<lparr>out_url = targetUrl,
            out_method = req_method req,
            out_headers = forward_headers L W req serviceName signingSecret opensealRootHash,
            out_body = request_body L req\<rparr>)"

text \<open>The one upstream call: \<open>Inr response\<close> when it was made and \<open>fetch\<close> resolved.\<close>

definition upstream_call ::
  "lib \<Rightarrow> world \<Rightarrow> request \<Rightarrow> jsstring \<Rightarrow> jsstring \<Rightarrow> jsstring \<Rightarrow> jsstring option \<Rightarrow>
     jsstring option \<Rightarrow> js_error + response" where
  "upstream_call L W req upstreamUrl serviceName subPath signingSecret opensealRootHash =
     then_do (build_request L W req upstreamUrl serviceName subPath signingSecret
                opensealRootHash) (fetch W)"

text \<open>
  The seal of the response header, the same in the header-based case and in the case of
  a body that is not JSON: \<open>result\<close> is what is verified, \<open>missing\<close> the message when
  there is no header. The pair is \<open>(openSealVerified, openSealMessage)\<close>.
\<close>

definition header_seal ::
  "lib \<Rightarrow> world \<Rightarrow> response \<Rightarrow> jsval \<Rightarrow> jsstring \<Rightarrow> jsstring option \<Rightarrow> jsstring \<Rightarrow>
     bool \<times> jsstring" where
  "header_seal L W response result wax opensealRootHash missing =
     (let seal = headers_get (res_headers response) (js ''X-OpenSeal-Seal'') in
      if str_truthy seal
      then (case then_do (JSON_parse L (the seal)) (\<lambda>sealJson.
                   verify L W (JObj [(js ''result'', result), (js ''openseal'', sealJson)])
                     wax opensealRootHash) of
              Inr resultVerify \<Rightarrow> (valid resultVerify, message resultVerify)
            | Inl e \<Rightarrow> (False, js ''Header Parse Error: '' @ message_of L e))
      else (False, missing))"

text \<open>\<open>parsedBody && parsedBody.openseal && parsedBody.result !== undefined\<close>.\<close>

definition is_body_wrapper :: "jsval \<Rightarrow> bool" where
  "is_body_wrapper parsedBody =
     (truthy parsedBody \<and>
      (case js_get parsedBody (js ''openseal'') of Inl e \<Rightarrow> False | Inr v \<Rightarrow> truthy v) \<and>
      (case js_get parsedBody (js ''result'') of Inl e \<Rightarrow> False | Inr v \<Rightarrow> v \<noteq> JUndefined))"

text \<open>
  The inner \<open>try\<close> block: \<open>(data, integrityCheck, openSealVerified, openSealMessage)\<close> when
  nothing throws.
\<close>

definition interpret_json ::
  "lib \<Rightarrow> world \<Rightarrow> response \<Rightarrow> jsstring \<Rightarrow> jsstring option \<Rightarrow> jsstring option \<Rightarrow>
     js_error + jsval \<times> bool \<times> bool \<times> jsstring" where
  "interpret_json L W response responseText wax opensealRootHash =
     then_do (JSON_parse L responseText) (\<lambda>parsedBody.
       if is_body_wrapper parsedBody
       then then_do
              (if str_truthy opensealRootHash \<and> str_truthy wax
               then then_do (verify L W parsedBody (the wax) opensealRootHash)
                      (\<lambda>resultVerify. Inr (valid resultVerify, message resultVerify))
               else Inr (False, []))
              (\<lambda>vm. then_do (js_get parsedBody (js ''result''))
                      (\<lambda>result. Inr (result, True, fst vm, snd vm)))
       else (let vm = (if str_truthy opensealRootHash \<and> str_truthy wax
                       then header_seal L W response parsedBody (the wax) opensealRootHash
                              (js ''Missing Seal (Header/Body)'')
                       else (False, []))
             in Inr (parsedBody, True, fst vm, snd vm)))"

text \<open>Its \<open>catch\<close> block: the body as plain text.\<close>

definition interpret_text ::
  "lib \<Rightarrow> world \<Rightarrow> response \<Rightarrow> jsstring \<Rightarrow> jsstring option \<Rightarrow> jsstring option \<Rightarrow>
     jsval \<times> bool \<times> bool \<times> jsstring" where
  "interpret_text L W response responseText wax opensealRootHash =
     (let vm = (if str_truthy opensealRootHash \<and> str_truthy wax
                then header_seal L W response (JStr responseText) (the wax) opensealRootHash
                       (js ''Integrity Compromised: Non-JSON response without Seal header'')
                else (False, []))
      in (JObj [(js ''message'', JStr responseText)], False, fst vm, snd vm))"

text \<open>
  \<open>ProxyService.forwardRequest\<close>. \<open>Inl e\<close> is the promise rejected with \<open>e\<close>: the
  TypeError of a request with no \<open>originalUrl\<close>, or what \<open>fetch\<close> or \<open>response.text()\<close>
  threw, thrown again by the outer \<open>catch\<close>. The latency report to
  \<open>applyPerformancePenalty\<close> is sent after the result is built and its failure is
  swallowed; it has no part in the value returned.
\<close>

definition forwardRequest ::
  "lib \<Rightarrow> world \<Rightarrow> request \<Rightarrow> jsstring \<Rightarrow> jsstring \<Rightarrow> jsstring \<Rightarrow> jsstring option \<Rightarrow>
     jsstring option \<Rightarrow> js_error + ProxyResult" where
  "forwardRequest L W req upstreamUrl serviceName subPath signingSecret opensealRootHash =
     (let wax = new_wax W opensealRootHash in
      then_do (upstream_call L W req upstreamUrl serviceName subPath signingSecret
                 opensealRootHash) (\<lambda>response.
      then_do (res_text response) (\<lambda>responseText.
      then_do (try_catch (interpret_json L W response responseText wax opensealRootHash)
                 (\<lambda>e. Inr (interpret_text L W response responseText wax opensealRootHash)))
        (\<lambda>outcome.
      let latencyMs = rounded_latency W;
          contentType = (if str_truthy (headers_get (res_headers response) (js ''content-type''))
                         then the (headers_get (res_headers response) (js ''content-type''))
                         else js ''unknown'');
          responseSizeBytes = length responseText;
          result = \<lparr>status = res_status response,
                    data = fst outcome,
                    telemetry = \<lparr>latencyMs = latencyMs, responseSizeBytes = responseSizeBytes,
                                  contentType = contentType,
                                  integrityCheck = fst (snd outcome)\<rparr>,
                    openseal = (if str_truthy opensealRootHash
                                then Some \<lparr>verified = fst (snd (snd outcome)),
                                           seal_message = snd (snd (snd outcome))\<rparr>
                                else None)\<rparr>
      in Inr result))))"

subsection \<open>Concrete inputs\<close>

text \<open>A network whose upstream answers 200 with the given headers and body text.\<close>

definition test_world :: "(jsstring \<times> jsstring) list \<Rightarrow> jsstring \<Rightarrow> world" where
  "test_world hs text =
     \<lparr>Date_now = 0, randomBytes16 = 0, rounded_latency = 0,
      fetch = (\<lambda>out. Inr \<lparr>res_status = 200, res_text = Inr text, res_headers = hs\<rparr>),
      verifyWithCli = None\<rparr>"

definition test_request :: request where
  "test_request =
     \<lparr>req_headers = [(js ''x-forwarded-for'', js ''10.0.0.1''), (js ''accept'', js ''*/*''),
                     (js ''host'', js ''gateway.example'')],
      req_method = js ''GET'', req_body = JUndefined, req_originalUrl = Some (js ''/quote'')\<rparr>"


section \<open>The domain resolver\<close>

text \<open>A row of the table \<open>services\<close>, with the columns the resolver reads.\<close>

record service =
  svc_slug :: jsstring
  svc_name :: jsstring
  svc_custom_domain :: "jsstring option"
  svc_status :: jsstring
  svc_upstream_url :: jsstring

text \<open>
  The database: the rows of \<open>services\<close>, or the error that \<open>query\<close> throws. The two
  statements of \<open>domainResolver\<close> and the one of \<open>serviceResolver\<close>, each with \<open>LIMIT 1\<close>.
\<close>

type_synonym registry = "js_error + service list"

definition select_by_custom_domain_and_status ::
  "registry \<Rightarrow> jsstring \<Rightarrow> jsstring \<Rightarrow> js_error + service list" where
  "select_by_custom_domain_and_status reg domain st =
     then_do reg (\<lambda>rows.
       Inr (take 1 (filter (\<lambda>s. svc_custom_domain s = Some domain \<and> svc_status s = st) rows)))"

definition select_by_slug_and_status ::
  "registry \<Rightarrow> jsstring \<Rightarrow> jsstring \<Rightarrow> js_error + service list" where
  "select_by_slug_and_status reg slug st =
     then_do reg (\<lambda>rows.
       Inr (take 1 (filter (\<lambda>s. svc_slug s = slug \<and> svc_status s = st) rows)))"

definition select_by_slug :: "registry \<Rightarrow> jsstring \<Rightarrow> js_error + service list" where
  "select_by_slug reg slug =
     then_do reg (\<lambda>rows. Inr (take 1 (filter (\<lambda>s. svc_slug s = slug) rows)))"

text \<open>What the middleware leaves in \<open>res.locals\<close> before it calls \<open>next()\<close>.\<close>

record locals =
  serviceConfig :: "service option"
  serviceSource :: "jsstring option"
  strippedPath :: "jsstring option"

definition no_service :: locals where
  "no_service = \<lparr>serviceConfig = None, serviceSource = None, strippedPath = None\<rparr>"

text \<open>\<open>s.endsWith(p)\<close> and \<open>s.includes(p)\<close>.\<close>

definition endsWith :: "jsstring \<Rightarrow> jsstring \<Rightarrow> bool" where
  "endsWith s p = suffix p s"

definition str_includes :: "jsstring \<Rightarrow> jsstring \<Rightarrow> bool" where
  "str_includes s p = sublist p s"

text \<open>\<open>(req.headers.host || '').split(':')[0]\<close>.\<close>

definition hostname_of :: "jsstring option \<Rightarrow> jsstring" where
  "hostname_of host_header =
     (let host = (if str_truthy host_header then the host_header else [])
      in case split_char 0x3A host of [] \<Rightarrow> [] | p # _ \<Rightarrow> p)"

text \<open>Priority 1: the custom domain, among the verified services.\<close>

definition by_custom_domain :: "registry \<Rightarrow> jsstring \<Rightarrow> js_error + locals option" where
  "by_custom_domain reg hostname =
     then_do (select_by_custom_domain_and_status reg hostname (js ''verified''))
       (\<lambda>rows. case rows of
                  [] \<Rightarrow> Inr None
                | r # _ \<Rightarrow> Inr (Some \<lparr>serviceConfig = Some r,
                                      serviceSource = Some (js ''custom_domain''),
                                      strippedPath = None\<rparr>))"

text \<open>Priority 2: the first label of a HighStation host name, among the verified services.\<close>

definition by_subdomain :: "registry \<Rightarrow> jsstring \<Rightarrow> js_error + locals option" where
  "by_subdomain reg hostname =
     (let parts = split_char 0x2E hostname in
      if length parts \<ge> 2
      then (let subdomain = (case parts of [] \<Rightarrow> [] | p # _ \<Rightarrow> p);
                isHighStationDomain = (endsWith hostname (js ''.highstation.net'') \<or>
                                       endsWith hostname (js ''.highstation.localhost''))
            in if isHighStationDomain \<and> subdomain \<noteq> js ''www''
               then then_do (select_by_slug_and_status reg subdomain (js ''verified''))
                      (\<lambda>rows. case rows of
                                 [] \<Rightarrow> Inr None
                               | r # _ \<Rightarrow> Inr (Some \<lparr>serviceConfig = Some r,
                                                     serviceSource = Some (js ''subdomain''),
                                                     strippedPath = None\<rparr>))
               else Inr None)
      else Inr None)"

text \<open>
  \<open>req.path.match(/^\/gatekeeper\/([^\/]+)/)\<close>: the slug captured, if the path matches;
  \<open>req.path.replace\<close> of the same pattern removes the twelve characters and the slug.
\<close>

definition legacy_match :: "jsstring \<Rightarrow> jsstring option" where
  "legacy_match path =
     (if startsWith path (js ''/gatekeeper/'')
      then (let slug = takeWhile (\<lambda>c. c \<noteq> 0x2F) (drop 12 path)
            in if slug \<noteq> [] then Some slug else None)
      else None)"

definition legacy_replace :: "jsstring \<Rightarrow> jsstring" where
  "legacy_replace path =
     (case legacy_match path of None \<Rightarrow> path | Some slug \<Rightarrow> drop (12 + length slug) path)"

text \<open>Priority 3: the legacy path.\<close>

definition by_legacy_path :: "registry \<Rightarrow> jsstring \<Rightarrow> js_error + locals option" where
  "by_legacy_path reg path =
     (case legacy_match path of
        None \<Rightarrow> Inr None
      | Some slug \<Rightarrow>
          if slug = js ''resource'' \<or> str_includes path (js ''/info'')
          then Inr None
          else then_do (select_by_slug_and_status reg slug (js ''verified''))
                 (\<lambda>rows. case rows of
                            [] \<Rightarrow> Inr None
                          | r # _ \<Rightarrow>
                              (let pathWithoutGatekeeper =
                                     (if legacy_replace path \<noteq> [] then legacy_replace path
                                      else js ''/'')
                               in Inr (Some \<lparr>serviceConfig = Some r,
                                             serviceSource = Some (js ''legacy_path''),
                                             strippedPath = Some pathWithoutGatekeeper\<rparr>))))"

text \<open>
  The \<open>try\<close> block of \<open>domainResolver\<close>: each priority either returns with the service it
  found or falls to the next one.
\<close>

definition first_match ::
  "js_error + locals option \<Rightarrow> (js_error + locals) \<Rightarrow> js_error + locals" where
  "first_match found otherwise =
     then_do found (\<lambda>m. case m of Some l \<Rightarrow> Inr l | None \<Rightarrow> otherwise)"

definition domainResolver_try :: "registry \<Rightarrow> jsstring option \<Rightarrow> jsstring \<Rightarrow> js_error + locals" where
  "domainResolver_try reg host_header path =
     (if startsWith path (js ''/api'') \<or> startsWith path (js ''/mcp'') \<or>
         startsWith path (js ''/health'') \<or> startsWith path (js ''/debug'')
      then Inr no_service
      else (let hostname = hostname_of host_header in
            first_match (by_custom_domain reg hostname)
              (first_match (by_subdomain reg hostname)
                 (first_match (by_legacy_path reg path) (Inr no_service)))))"

text \<open>\<open>domainResolver\<close>: an error is logged and the request passes on with no service.\<close>

definition domainResolver :: "registry \<Rightarrow> jsstring option \<Rightarrow> jsstring \<Rightarrow> js_error + locals" where
  "domainResolver reg host_header path =
     try_catch (domainResolver_try reg host_header path) (\<lambda>e. Inr no_service)"

text \<open>
  \<open>serviceResolver\<close>, the middleware that follows on the routes with a slug parameter: it
  keeps a service already resolved and otherwise selects by slug alone.
\<close>

datatype resolver_outcome = Next locals | Reply nat jsstring

definition serviceResolver :: "registry \<Rightarrow> locals \<Rightarrow> jsstring option \<Rightarrow> resolver_outcome" where
  "serviceResolver reg l serviceSlug =
     (if serviceConfig l \<noteq> None then Next l
      else if \<not> str_truthy serviceSlug then Reply 400 (js ''Service identifier missing'')
      else (case select_by_slug reg (the serviceSlug) of
              Inl e \<Rightarrow> Reply 500 (js ''Service resolution failed'')
            | Inr [] \<Rightarrow> Reply 404 (js ''Service not found'')
            | Inr (r # _) \<Rightarrow>
                Next (l\<lparr>serviceConfig := Some r, serviceSource := Some (js ''param'')\<rparr>)))"

subsection \<open>Concrete inputs\<close>

definition pending_service :: service where
  "pending_service =
     \<lparr>svc_slug = js ''weather'', svc_name = js ''Weather'', svc_custom_domain = None,
      svc_status = js ''pending'', svc_upstream_url = js ''https://weather.example''\<rparr>"

definition verified_service :: service where
  "verified_service =
     \<lparr>svc_slug = js ''oracle'', svc_name = js ''Oracle'', svc_custom_domain = None,
      svc_status = js ''verified'', svc_upstream_url = js ''https://oracle.example''\<rparr>"

section \<open>The service routes: outbound calls to a provider's URL\<close>

text \<open>
  A parsed \<open>URL\<close> object, with the properties the routes read, and an outbound \<open>fetch\<close>:
  the URL it is called with and the headers it sends. Every call is a GET with a timeout
  of five seconds.
\<close>

record parsed_url =
  url_protocol :: jsstring
  url_hostname :: jsstring
  url_port :: jsstring
  url_origin :: jsstring

record probe_call =
  call_url :: jsstring
  call_headers :: "(jsstring \<times> jsstring) list"

record probe_response =
  pr_status :: nat
  pr_text :: "js_error + jsstring"

definition pr_ok :: "probe_response \<Rightarrow> bool" where
  "pr_ok r = (200 \<le> pr_status r \<and> pr_status r \<le> 299)"

text \<open>
  What the routes call and this repository's sources do not define: the validators
  \<open>isSafeUrlSyntax\<close> and \<open>isBlockedIP\<close>, the URL parser (\<open>new URL(url)\<close>, and
  \<open>new URL(path, origin).toString()\<close>), \<open>dns.resolve4\<close>, \<open>net.isIP\<close> and \<open>fetch\<close>.
\<close>

record net =
  isSafeUrlSyntax :: "jsstring \<Rightarrow> bool"
  isBlockedIP :: "jsval \<Rightarrow> bool"
  new_URL :: "jsstring \<Rightarrow> js_error + parsed_url"
  URL_resolve :: "jsstring \<Rightarrow> jsstring \<Rightarrow> js_error + jsstring"
  dns_resolve4 :: "jsstring \<Rightarrow> js_error + jsstring list"
  net_isIP :: "jsstring \<Rightarrow> bool"
  net_fetch :: "probe_call \<Rightarrow> js_error + probe_response"

subsection \<open>POST /utils/test-connection\<close>

text \<open>
  The replies of the handler: an error with its text, the success of a probe (its status,
  the resolved address and the URL probed, which stands for its path), or the failure of
  all probes (the status reported and the resolved address).
\<close>

datatype tc_reply =
    Status400 jsstring
  | Status500 jsstring
  | ProbeSuccess nat jsval jsstring
  | ProbeFailure nat jsval

text \<open>\<open>[...new Set(endpointsToTry)]\<close>: the first occurrence of each endpoint, in order.\<close>

definition unique_in_order :: "jsstring list \<Rightarrow> jsstring list" where
  "unique_in_order xs = rev (remdups (rev xs))"

text \<open>
  The loop over the endpoints: the calls made, the status and URL of the probe that
  succeeded if one did, and the last status seen. A probe that throws is logged and the
  loop goes on. Reading the OpenSeal identity off a successful response makes no further
  call and is left out.
\<close>

fun probe_loop ::
  "net \<Rightarrow> jsstring list \<Rightarrow> nat \<Rightarrow> probe_call list \<times> (nat \<times> jsstring) option \<times> nat" where
  "probe_loop N [] lastStatus = ([], None, lastStatus)"
| "probe_loop N (probeUrl # rest) lastStatus =
     (let call = \<lparr>call_url = probeUrl,
                   call_headers = [(js ''Accept'', js ''application/json''),
                                   (js ''User-Agent'', js ''highstation-probe/1.0'')]\<rparr>
      in case net_fetch N call of
           Inl err \<Rightarrow>
             (let later = probe_loop N rest lastStatus in (call # fst later, snd later))
         | Inr probeRes \<Rightarrow>
             if pr_ok probeRes
             then ([call], Some (pr_status probeRes, probeUrl), pr_status probeRes)
             else (let later = probe_loop N rest (pr_status probeRes)
                   in (call # fst later, snd later)))"

text \<open>The endpoints to try, in the order of the source.\<close>

definition endpoints_to_try ::
  "net \<Rightarrow> jsstring \<Rightarrow> parsed_url \<Rightarrow> jsstring option \<Rightarrow> js_error + jsstring list" where
  "endpoints_to_try N url urlObj testPath =
     then_do (URL_resolve N (js ''/.openseal/identity'') (url_origin urlObj)) (\<lambda>identity.
     then_do (if str_truthy testPath
              then (let normalizedPath = (if startsWith (the testPath) (js ''/'') then the testPath
                                          else js ''/'' @ the testPath)
                    in then_do (URL_resolve N normalizedPath (url_origin urlObj))
                         (\<lambda>u. Inr [u]))
              else Inr []) (\<lambda>user.
     then_do (URL_resolve N (js ''/health'') (url_origin urlObj)) (\<lambda>health.
     then_do (URL_resolve N (js ''/api/health'') (url_origin urlObj)) (\<lambda>api_health.
     Inr ([identity] @ user @ [url, health, api_health])))))"

text \<open>
  The \<open>try\<close> block of the handler: the calls it makes and its reply. \<open>resolvedIP\<close> is
  the first address of \<open>dns.resolve4\<close>, or the host name itself when the resolution
  fails and the host name is an IP literal.
\<close>

definition test_connection_try ::
  "net \<Rightarrow> jsstring option \<Rightarrow> jsstring option \<Rightarrow> js_error + probe_call list \<times> tc_reply" where
  "test_connection_try N url testPath =
     (if \<not> str_truthy url then Inr ([], Status400 (js ''URL required''))
      else if \<not> isSafeUrlSyntax N (the url)
      then Inr ([], Status400 (js ''Invalid or unsafe URL format''))
      else
      then_do (new_URL N (the url)) (\<lambda>urlObj.
      let hostname = url_hostname urlObj;
          resolved = (case dns_resolve4 N hostname of
                        Inr addresses \<Rightarrow>
                          Some (case addresses of [] \<Rightarrow> JUndefined | a # _ \<Rightarrow> JStr a)
                      | Inl e \<Rightarrow> if net_isIP N hostname then Some (JStr hostname) else None)
      in case resolved of
           None \<Rightarrow> Inr ([], Status400 (js ''DNS resolution failed''))
         | Some resolvedIP \<Rightarrow>
             if isBlockedIP N resolvedIP
             then Inr ([], Status400 (js ''Access to private network blocked''))
             else
             then_do (endpoints_to_try N (the url) urlObj testPath) (\<lambda>endpointsToTry.
             let outcome = probe_loop N (unique_in_order endpointsToTry) 0
             in case fst (snd outcome) of
                  Some success \<Rightarrow>
                    Inr (fst outcome, ProbeSuccess (fst success) resolvedIP (snd success))
                | None \<Rightarrow>
                    (let lastStatus = snd (snd outcome)
                     in Inr (fst outcome,
                             ProbeFailure (if lastStatus \<noteq> 0 then lastStatus else 500)
                               resolvedIP)))))"

text \<open>
  The handler: what its \<open>try\<close> block throws ends in the reply 500 "Probing failed". The
  endpoints are computed before the first probe, so no call was made by then.
\<close>

definition test_connection ::
  "net \<Rightarrow> jsstring option \<Rightarrow> jsstring option \<Rightarrow> probe_call list \<times> tc_reply" where
  "test_connection N url testPath =
     (case test_connection_try N url testPath of
        Inl e \<Rightarrow> ([], Status500 (js ''Probing failed''))
      | Inr r \<Rightarrow> r)"

subsection \<open>POST /:id/verify\<close>

text \<open>The service row the handler selects, with the two columns it reads.\<close>

record service_row =
  row_upstream_url :: jsstring
  row_verification_token :: "jsstring option"

datatype verify_reply =
    Unauthorized
  | NotFound
  | BadRequest jsstring
  | ServerError
  | Verified

text \<open>
  Steps 2 to 4 of the handler and the check of the file: the address is resolved once,
  validated, and put in the place of the host name in the URL that is fetched, with the
  host name in the \<open>Host\<close> header. \<open>updated\<close> is what the final UPDATE throws, if it does.
\<close>

definition verify_ownership_fetch ::
  "net \<Rightarrow> parsed_url \<Rightarrow> jsstring \<Rightarrow> jsstring \<Rightarrow> js_error option \<Rightarrow>
     probe_call list \<times> verify_reply" where
  "verify_ownership_fetch N urlObj resolvedIP token updated =
     (let hostname = url_hostname urlObj;
          verificationUrl =
            url_protocol urlObj @ js ''//'' @ resolvedIP @
            (if url_port urlObj \<noteq> [] then js '':'' @ url_port urlObj else []) @
            js ''/.well-known/x402-verify.txt'';
          call = \<lparr>call_url = verificationUrl,
                  call_headers = [(js ''User-Agent'', js ''highstation-bot/1.0''),
                                  (js ''Host'', hostname)]\<rparr>
      in case net_fetch N call of
           Inl e \<Rightarrow> ([call], BadRequest (js ''Could not verify domain''))
         | Inr response \<Rightarrow>
             if \<not> pr_ok response
             then ([call], BadRequest (js ''Verification file not found or inaccessible''))
             else (case pr_text response of
                     Inl e \<Rightarrow> ([call], BadRequest (js ''Could not verify domain''))
                   | Inr content \<Rightarrow>
                       if \<not> str_includes content token
                       then ([call], BadRequest (js ''Verification failed''))
                       else (case updated of
                               Some e \<Rightarrow> ([call], BadRequest (js ''Could not verify domain''))
                             | None \<Rightarrow> ([call], Verified))))"

definition verify_ownership ::
  "net \<Rightarrow> jsstring option \<Rightarrow> js_error + service_row option \<Rightarrow> js_error option \<Rightarrow>
     probe_call list \<times> verify_reply" where
  "verify_ownership N userId selected updated =
     (if \<not> str_truthy userId then ([], Unauthorized)
      else case selected of
        Inl e \<Rightarrow> ([], ServerError)
      | Inr None \<Rightarrow> ([], NotFound)
      | Inr (Some service) \<Rightarrow>
          if \<not> str_truthy (row_verification_token service)
          then ([], BadRequest (js ''No verification token. Generate one first.''))
          else
          (case new_URL N (row_upstream_url service) of
             Inl e \<Rightarrow> ([], BadRequest (js ''Invalid URL format''))
           | Inr urlObj \<Rightarrow>
               (let hostname = url_hostname urlObj;
                    resolved = (case dns_resolve4 N hostname of
                                  Inr (a # _) \<Rightarrow> Some a
                                | _ \<Rightarrow> if net_isIP N hostname then Some hostname else None)
                in case resolved of
                     None \<Rightarrow> ([], BadRequest (js ''Verification failed''))
                   | Some resolvedIP \<Rightarrow>
                       if isBlockedIP N (JStr resolvedIP)
                       then ([], BadRequest (js ''Invalid Upstream''))
                       else verify_ownership_fetch N urlObj resolvedIP
                              (the (row_verification_token service)) updated)))"

subsection \<open>The pin-then-connect discipline of the specification\<close>

text \<open>
  The call dials the pinned address: its URL is the protocol, the address and the port
  of the target followed by a path; and it carries the original host name in an explicit
  \<open>Host\<close> header.
\<close>

definition dials_pinned :: "parsed_url \<Rightarrow> jsstring \<Rightarrow> probe_call \<Rightarrow> bool" where
  "dials_pinned urlObj pinnedIP call =
     (startsWith (call_url call)
        (url_protocol urlObj @ js ''//'' @ pinnedIP @
         (if url_port urlObj \<noteq> [] then js '':'' @ url_port urlObj else []) @ js ''/'') \<and>
      map_of (call_headers call) (js ''Host'') = Some (url_hostname urlObj))"

subsection \<open>Concrete inputs\<close>

definition upstream_example :: parsed_url where
  "upstream_example =
     \<lparr>url_protocol = js ''http:'', url_hostname = js ''upstream.example'', url_port = [],
      url_origin = js ''http://upstream.example''\<rparr>"

text \<open>
  A network in which the name upstream.example resolves to 93.184.216.34, an address
  that is not blocked, and the provider answers every request with 200 and the token.
\<close>

definition test_net :: net where
  "test_net =
     \<lparr>isSafeUrlSyntax = (\<lambda>u. True),
      isBlockedIP = (\<lambda>ip. ip = JStr (js ''127.0.0.1'')),
      new_URL = (\<lambda>u. if u = js ''http://upstream.example'' then Inr upstream_example
                       else Inl TypeError),
      URL_resolve = (\<lambda>path origin. Inr (origin @ path)),
      dns_resolve4 = (\<lambda>h. if h = js ''upstream.example'' then Inr [js ''93.184.216.34'']
                            else Inl NetworkError),
      net_isIP = (\<lambda>h. False),
      net_fetch = (\<lambda>c. Inr \<lparr>pr_status = 200, pr_text = Inr (js ''token-123'')\<rparr>)\<rparr>"

section \<open>Strings, hex and UTF-8: facts\<close>

lemma unat_js_char: "unat (of_nat (of_char c) :: 16 word) = of_char c"
proof -
  have "(of_char c :: nat) < 65536"
    by (rule less_trans [OF nat_of_char_less_256]) simp
  then have "(of_char c :: nat) mod 65536 = of_char c"
    by (rule mod_less)
  then show ?thesis by (simp add: unat_of_nat)
qed

lemma js_char_inj: "((of_nat (of_char c) :: 16 word) = of_nat (of_char d)) = (c = d)"
proof
  assume "(of_nat (of_char c) :: 16 word) = of_nat (of_char d)"
  then have "unat (of_nat (of_char c) :: 16 word) = unat (of_nat (of_char d) :: 16 word)"
    by simp
  then have "(of_char c :: nat) = of_char d" by (simp only: unat_js_char)
  then show "c = d" by simp
qed simp

lemma js_eq_iff: "(js a = js b) = (a = b)"
proof (induction a arbitrary: b)
  case Nil
  then show ?case by (cases b) (simp_all add: js_def)
next
  case (Cons x xs)
  then show ?case by (cases b) (simp_all add: js_def js_char_inj)
qed

lemma js_Nil: "(js a = []) = (a = [])"
  by (simp add: js_def)

lemma js_append: "js (a @ b) = js a @ js b"
  by (simp add: js_def)

lemma length_js: "length (js a) = length a"
  by (simp add: js_def)

lemma unat_js_lt: "c \<in> set (js s) \<Longrightarrow> unat c < 256"
  by (auto simp: js_def unat_js_char)

lemma code_points_no_surrogates:
  "\<forall>c\<in>set s. unat c < 0xD800 \<Longrightarrow> code_points s = map unat s"
proof (induction s rule: code_points.induct)
  case 1
  then show ?case by simp
next
  case (2 c)
  then show ?case by (simp add: scalar_of_def is_high_surrogate_def is_low_surrogate_def)
next
  case (3 c d cs)
  then show ?case by (simp add: scalar_of_def is_high_surrogate_def is_low_surrogate_def)
qed

lemma code_points_js: "code_points (js s) = map of_char s"
proof -
  have "\<forall>c\<in>set (js s). unat c < 0xD800"
    using unat_js_lt by fastforce
  then have "code_points (js s) = map unat (js s)" by (rule code_points_no_surrogates)
  then show ?thesis by (simp add: js_def unat_js_char)
qed

lemma TextEncoder_encode_prefix:
  "TextEncoder_encode (js ''OPENSEAL_BLINDED_IDENTITY'') =
     [0x4F, 0x50, 0x45, 0x4E, 0x53, 0x45, 0x41, 0x4C, 0x5F, 0x42, 0x4C, 0x49, 0x4E, 0x44, 0x45,
      0x44, 0x5F, 0x49, 0x44, 0x45, 0x4E, 0x54, 0x49, 0x54, 0x59]"
  by (simp add: TextEncoder_encode_def code_points_js utf8_bytes_def)

text \<open>An ASCII text has as many UTF-8 bytes as code units.\<close>

lemma length_TextEncoder_encode_ascii:
  assumes "\<forall>c\<in>set s. unat c < 0x80"
  shows "length (TextEncoder_encode s) = length s"
proof -
  have "\<forall>c\<in>set s. unat c < 0xD800" using assms by fastforce
  then have cp: "code_points s = map unat s" by (rule code_points_no_surrogates)
  have "sum_list (map (\<lambda>c. length (utf8_bytes (unat c))) s) = length s"
    using assms by (induction s) (simp_all add: utf8_bytes_def)
  then show ?thesis
    by (simp add: TextEncoder_encode_def cp length_concat comp_def)
qed

section \<open>OpensealVerifier: evaluation on concrete inputs\<close>

lemma hex_pairs_ab12: "hex_pairs (js ''ab12'') = Inr [0xAB, 0x12]"
  by (simp add: js_def asciiToBase16_def)

lemma hex_pairs_0130: "hex_pairs (js ''0130'') = Inr [0x01, 0x30]"
  by (simp add: js_def asciiToBase16_def)

lemma hex_pairs_01: "hex_pairs (js ''01'') = Inr [0x01]"
  by (simp add: js_def asciiToBase16_def)

lemma hex_pairs_zz: "hex_pairs (js ''zz'') = Inl HexError"
  by (simp add: js_def asciiToBase16_def)

lemma bytesToHex_4f50: "bytesToHex [0x4F, 0x50] = js ''4f50''"
  by (simp add: js_def bytesToHex_def hex_digit_def)

lemma computeAHash_test: "computeAHash test_lib (js ''ab12'') (js ''00ff'') = Inr (js ''4f50'')"
  by (simp add: computeAHash_def hasher_create_def hasher_update_def hasher_digest_def
      hex_pairs_ab12 test_lib_def TextEncoder_encode_prefix bytesToHex_4f50)

lemma first_byte_00ff: "take 1 (TextEncoder_encode (js ''00ff'' @ t)) = [0x30]"
  by (simp add: js_def TextEncoder_encode_def scalar_of_def is_high_surrogate_def
      is_low_surrogate_def utf8_bytes_def)

lemma signature_verifies_test:
  "signature_verifies test_lib (js ''0130'') (js ''01'') (signed_payload test_lib (js ''00ff'') a b r)"
proof -
  have "take 1 (signed_payload test_lib (js ''00ff'') a b r) = [0x30]"
    unfolding signed_payload_def by (rule first_byte_00ff)
  then show ?thesis
    by (simp add: signature_verifies_def hex_pairs_0130 hex_pairs_01 test_lib_def)
qed

lemma envelope_fields_envelope:
  "envelope_fields (envelope r (seal sg pk a b)) r sg pk a b"
  by (simp add: envelope_fields_def envelope_def seal_def js_eq_iff)

section \<open>OpensealVerifier: the steps of verifyNative\<close>

lemma js_get_JStr_truthy: "js_get v k = Inr (JStr s) \<Longrightarrow> truthy v"
  by (cases v) (simp_all split: option.splits)

lemma js_get_truthy: "truthy v \<Longrightarrow> \<exists>x. js_get v k = Inr x"
  by (cases v) simp_all

lemma verifyNative_try_missing:
  assumes "js_get response (js ''openseal'') = Inr os"
    and "js_get response (js ''result'') = Inr result"
    and "\<not> truthy os \<or> \<not> truthy result"
  shows "verifyNative_try L response wax rh =
           Inr (failure (js ''Missing openseal or result fields''))"
  using assms by (simp add: verifyNative_try_def then_do_def)

lemma verifyNative_try_incomplete:
  assumes g: "js_get response (js ''openseal'') = Inr os"
      "js_get response (js ''result'') = Inr result"
    and t: "truthy os" "truthy result"
    and k: "k \<in> {js ''signature'', js ''pub_key'', js ''a_hash'', js ''b_hash''}"
    and v: "js_get os k = Inr v" "\<not> truthy v"
  shows "verifyNative_try L response wax rh = Inr (failure (js ''Incomplete openseal metadata''))"
proof -
  obtain s p a b where f:
    "js_get os (js ''signature'') = Inr s" "js_get os (js ''pub_key'') = Inr p"
    "js_get os (js ''a_hash'') = Inr a" "js_get os (js ''b_hash'') = Inr b"
    using js_get_truthy [OF t(1)] by metis
  have "\<not> truthy s \<or> \<not> truthy p \<or> \<not> truthy a \<or> \<not> truthy b"
    using k v f by auto
  then show ?thesis
    using g t f by (simp add: verifyNative_try_def then_do_def)
qed

lemma verifyNative_try_signed:
  assumes env: "envelope_fields response result sg pk a b"
    and present: "truthy result" "sg \<noteq> []" "pk \<noteq> []" "a \<noteq> []" "b \<noteq> []"
    and sig: "signature_verifies L sg pk (signed_payload L wax a b result)"
  shows "verifyNative_try L response wax rh = verify_identity L wax rh (JStr a)"
proof -
  from env obtain os where g:
    "js_get response (js ''result'') = Inr result"
    "js_get response (js ''openseal'') = Inr os"
    "js_get os (js ''signature'') = Inr (JStr sg)"
    "js_get os (js ''pub_key'') = Inr (JStr pk)"
    "js_get os (js ''a_hash'') = Inr (JStr a)"
    "js_get os (js ''b_hash'') = Inr (JStr b)"
    by (auto simp: envelope_fields_def)
  have t: "truthy os" using g(3) by (rule js_get_JStr_truthy)
  from sig obtain sb pb where h:
    "hex_pairs sg = Inr sb" "hex_pairs pk = Inr pb"
    "ed_verify L sb (signed_payload L wax a b result) pb = Inr True"
    by (auto simp: signature_verifies_def split: sum.splits)
  have "verify_signature L wax rh result (JStr sg) (JStr pk) (JStr a) (JStr b) =
          verify_identity L wax rh (JStr a)"
    using h by (simp add: verify_signature_def then_do_def template_part_def Let_def
        signed_payload_def serialize_def)
  then show ?thesis
    using g t present by (simp add: verifyNative_try_def then_do_def)
qed

text \<open>
  The path the specification's first testable property describes: a result that is
  truthy, four non-empty fields, a signature that verifies and an \<open>a_hash\<close> that is the
  blinded hash recomputed from the expected root hash.
\<close>

lemma verifyNative_valid:
  assumes "envelope_fields response result sg pk a b"
    and "truthy result" "sg \<noteq> []" "pk \<noteq> []" "a \<noteq> []" "b \<noteq> []"
    and "signature_verifies L sg pk (signed_payload L wax a b result)"
    and "computeAHash L rh wax = Inr a"
  shows "verifyNative L response wax (Some rh) =
           Inr \<lparr>valid = True, signatureVerified = True, identityVerified = True,
                message = valid_message\<rparr>"
proof -
  have "verifyNative_try L response wax (Some rh) = verify_identity L wax (Some rh) (JStr a)"
    using assms(1-7) by (rule verifyNative_try_signed)
  moreover have "verify_identity L wax (Some rh) (JStr a) =
      Inr \<lparr>valid = True, signatureVerified = True, identityVerified = True,
           message = valid_message\<rparr>"
    using assms(8) by (simp add: verify_identity_def then_do_def)
  ultimately show ?thesis by (simp add: verifyNative_def try_catch_def)
qed

lemma verifyNative_valid_test:
  "verifyNative test_lib
     (envelope (JStr (js ''42'')) (seal (js ''0130'') (js ''01'') (js ''4f50'') (js ''b0'')))
     (js ''00ff'') (Some (js ''ab12'')) =
   Inr \<lparr>valid = True, signatureVerified = True, identityVerified = True,
        message = valid_message\<rparr>"
  by (rule verifyNative_valid [OF envelope_fields_envelope _ _ _ _ _ signature_verifies_test
        computeAHash_test])
     (simp_all add: js_Nil)

text \<open>A root hash that is not hex makes \<open>computeAHash\<close> throw, after the signature verified.\<close>

lemma verifyNative_malformed_root:
  assumes "envelope_fields response result sg pk a b"
    and "truthy result" "sg \<noteq> []" "pk \<noteq> []" "a \<noteq> []" "b \<noteq> []"
    and "signature_verifies L sg pk (signed_payload L wax a b result)"
    and "rh \<noteq> []" and "hex_pairs rh = Inl e"
  shows "verifyNative L response wax (Some rh) =
           Inr (failure (js ''Native Verification Error: '' @ message_of L e))"
proof -
  have "verifyNative_try L response wax (Some rh) = verify_identity L wax (Some rh) (JStr a)"
    using assms(1-7) by (rule verifyNative_try_signed)
  moreover have "verify_identity L wax (Some rh) (JStr a) = Inl e"
    using assms(8,9) by (simp add: verify_identity_def then_do_def computeAHash_def)
  ultimately show ?thesis by (simp add: verifyNative_def try_catch_def)
qed

section \<open>OpensealVerifier: the claims\<close>

text \<open>
  Claim C1, at the input where the code departs from it. The envelope
  \<open>{ result: 0, openseal: {...} }\<close> contains a result and all four openseal fields, its
  signature verifies over nonce || a_hash || b_hash || hex(Hash("0")) and its \<open>a_hash\<close> is
  the blinded hash recomputed for the expected root hash and the nonce; \<open>verifyNative\<close>
  answers that the result field is missing, because it tests the result for truthiness.
\<close>

theorem verifyNative_rejects_sealed_zero:
  "envelope_fields
     (envelope (JNum 0) (seal (js ''0130'') (js ''01'') (js ''4f50'') (js ''b0'')))
     (JNum 0) (js ''0130'') (js ''01'') (js ''4f50'') (js ''b0'') \<and>
   signature_verifies test_lib (js ''0130'') (js ''01'')
     (signed_payload test_lib (js ''00ff'') (js ''4f50'') (js ''b0'') (JNum 0)) \<and>
   computeAHash test_lib (js ''ab12'') (js ''00ff'') = Inr (js ''4f50'') \<and>
   verifyNative test_lib
     (envelope (JNum 0) (seal (js ''0130'') (js ''01'') (js ''4f50'') (js ''b0'')))
     (js ''00ff'') (Some (js ''ab12'')) =
   Inr \<lparr>valid = False, signatureVerified = False, identityVerified = False,
        message = js ''Missing openseal or result fields''\<rparr>"
proof -
  have "verifyNative_try test_lib
     (envelope (JNum 0) (seal (js ''0130'') (js ''01'') (js ''4f50'') (js ''b0'')))
     (js ''00ff'') (Some (js ''ab12'')) = Inr (failure (js ''Missing openseal or result fields''))"
    by (rule verifyNative_try_missing [where result = "JNum 0"])
       (simp_all add: envelope_def js_eq_iff)
  then show ?thesis
    using envelope_fields_envelope signature_verifies_test computeAHash_test
    by (simp add: verifyNative_def try_catch_def failure_def)
qed

text \<open>
  Claim C2, as the code has it. An envelope with a truthy result and four non-empty
  string fields, whose signature verifies over the signed payload and whose \<open>a_hash\<close>
  differs from the blinded hash recomputed from a non-empty expected root hash that is
  hex: \<open>verifyNative\<close> reports the signature verified, the identity not verified, the
  seal invalid, and a message that starts with "Identity Mismatch".
\<close>

theorem verifyNative_identity_mismatch:
  assumes "envelope_fields response result sg pk a b"
    and "truthy result" "sg \<noteq> []" "pk \<noteq> []" "a \<noteq> []" "b \<noteq> []"
    and "signature_verifies L sg pk (signed_payload L wax a b result)"
    and "rh \<noteq> []" and "computeBlindedHash L rh wax = Inr a'" and "a \<noteq> a'"
  shows "\<exists>r. verifyNative L response wax (Some rh) = Inr r \<and>
           signatureVerified r \<and> \<not> identityVerified r \<and> \<not> valid r \<and>
           message r = mismatch_message \<and> take 17 (message r) = js ''Identity Mismatch''"
proof -
  have "verifyNative_try L response wax (Some rh) = verify_identity L wax (Some rh) (JStr a)"
    using assms(1-7) by (rule verifyNative_try_signed)
  moreover have "computeAHash L rh wax = Inr a'"
    using assms(9)
    by (simp add: computeAHash_def computeBlindedHash_def hasher_create_def hasher_update_def
        hasher_digest_def split: sum.splits)
  then have "verify_identity L wax (Some rh) (JStr a) =
      Inr \<lparr>valid = False, signatureVerified = True, identityVerified = False,
           message = mismatch_message\<rparr>"
    using assms(8,10) by (auto simp add: verify_identity_def then_do_def)
  moreover have "take 17 mismatch_message = js ''Identity Mismatch''"
    by (simp add: mismatch_message_def js_def)
  ultimately show ?thesis by (simp add: verifyNative_def try_catch_def)
qed

theorem verifyNative_identity_mismatch_witness:
  "\<exists>r. verifyNative test_lib
          (envelope (JStr (js ''42'')) (seal (js ''0130'') (js ''01'') (js ''aaaa'') (js ''b0'')))
          (js ''00ff'') (Some (js ''ab12'')) = Inr r \<and>
        signatureVerified r \<and> \<not> identityVerified r \<and> \<not> valid r \<and>
        message r = mismatch_message \<and> take 17 (message r) = js ''Identity Mismatch''"
proof -
  have h: "computeBlindedHash test_lib (js ''ab12'') (js ''00ff'') = Inr (js ''4f50'')"
    by (simp add: computeBlindedHash_def hex_pairs_ab12 test_lib_def TextEncoder_encode_prefix
        bytesToHex_4f50)
  show ?thesis
    by (rule verifyNative_identity_mismatch
          [OF envelope_fields_envelope _ _ _ _ _ signature_verifies_test _ h])
       (simp_all add: js_Nil js_eq_iff)
qed

lemma computeBlindedHash_test_empty_root:
  "computeBlindedHash test_lib [] (js ''00ff'') = Inr (js ''4f50'')"
  by (simp add: computeBlindedHash_def test_lib_def TextEncoder_encode_prefix bytesToHex_4f50)

lemma computeBlindedHash_test:
  "computeBlindedHash test_lib (js ''ab12'') (js ''00ff'') = Inr (js ''4f50'')"
  by (simp add: computeBlindedHash_def hex_pairs_ab12 test_lib_def TextEncoder_encode_prefix
      bytesToHex_4f50)

text \<open>
  Claim C2 as it is written fails in two ways that the code intends. With the empty
  string for expected root hash, the identity is not checked: the signature verifies,
  \<open>a_hash\<close> differs from the recomputed blinded hash, and the seal is valid. With an empty
  \<open>b_hash\<close>, the envelope is answered "Incomplete openseal metadata" before the signature
  is looked at, though the signature verifies over the payload with that \<open>b_hash\<close>.
\<close>

theorem verifyNative_mismatch_not_reported:
  "signature_verifies test_lib (js ''0130'') (js ''01'')
     (signed_payload test_lib (js ''00ff'') (js ''aaaa'') (js ''b0'') (JStr (js ''42''))) \<and>
   computeBlindedHash test_lib [] (js ''00ff'') = Inr (js ''4f50'') \<and>
   js ''aaaa'' \<noteq> js ''4f50'' \<and>
   verifyNative test_lib
     (envelope (JStr (js ''42'')) (seal (js ''0130'') (js ''01'') (js ''aaaa'') (js ''b0'')))
     (js ''00ff'') (Some []) =
   Inr \<lparr>valid = True, signatureVerified = True, identityVerified = True,
        message = valid_message\<rparr> \<and>
   signature_verifies test_lib (js ''0130'') (js ''01'')
     (signed_payload test_lib (js ''00ff'') (js ''aaaa'') [] (JStr (js ''42''))) \<and>
   computeBlindedHash test_lib (js ''ab12'') (js ''00ff'') = Inr (js ''4f50'') \<and>
   verifyNative test_lib
     (envelope (JStr (js ''42'')) (seal (js ''0130'') (js ''01'') (js ''aaaa'') []))
     (js ''00ff'') (Some (js ''ab12'')) =
   Inr \<lparr>valid = False, signatureVerified = False, identityVerified = False,
        message = js ''Incomplete openseal metadata''\<rparr>"
proof -
  have "verifyNative_try test_lib
      (envelope (JStr (js ''42'')) (seal (js ''0130'') (js ''01'') (js ''aaaa'') (js ''b0'')))
      (js ''00ff'') (Some []) = verify_identity test_lib (js ''00ff'') (Some []) (JStr (js ''aaaa''))"
    by (rule verifyNative_try_signed [OF envelope_fields_envelope _ _ _ _ _
          signature_verifies_test])
       (simp_all add: js_Nil)
  then have 1: "verifyNative test_lib
      (envelope (JStr (js ''42'')) (seal (js ''0130'') (js ''01'') (js ''aaaa'') (js ''b0'')))
      (js ''00ff'') (Some []) =
      Inr \<lparr>valid = True, signatureVerified = True, identityVerified = True,
           message = valid_message\<rparr>"
    by (simp add: verifyNative_def try_catch_def verify_identity_def then_do_def)
  have "verifyNative_try test_lib
      (envelope (JStr (js ''42'')) (seal (js ''0130'') (js ''01'') (js ''aaaa'') []))
      (js ''00ff'') (Some (js ''ab12'')) = Inr (failure (js ''Incomplete openseal metadata''))"
    by (rule verifyNative_try_incomplete
          [where k = "js ''b_hash''" and v = "JStr []" and result = "JStr (js ''42'')"
             and os = "seal (js ''0130'') (js ''01'') (js ''aaaa'') []"])
       (simp_all add: envelope_def seal_def js_eq_iff js_Nil)
  then have 2: "verifyNative test_lib
      (envelope (JStr (js ''42'')) (seal (js ''0130'') (js ''01'') (js ''aaaa'') []))
      (js ''00ff'') (Some (js ''ab12'')) =
      Inr \<lparr>valid = False, signatureVerified = False, identityVerified = False,
           message = js ''Incomplete openseal metadata''\<rparr>"
    by (simp add: verifyNative_def try_catch_def failure_def)
  show ?thesis
    using 1 2 signature_verifies_test computeBlindedHash_test_empty_root computeBlindedHash_test
    by (simp add: js_eq_iff)
qed

text \<open>
  A falsy result is answered before the signature is looked at, whatever the seal: the
  input of claim C1, with an \<open>a_hash\<close> that differs from the recomputed one.
\<close>

lemma verifyNative_mismatch_at_zero:
  "verifyNative L (envelope (JNum 0) os) wax rh =
     Inr \<lparr>valid = False, signatureVerified = False, identityVerified = False,
          message = js ''Missing openseal or result fields''\<rparr>"
proof -
  have "verifyNative_try L (envelope (JNum 0) os) wax rh =
      Inr (failure (js ''Missing openseal or result fields''))"
    by (rule verifyNative_try_missing [where result = "JNum 0" and os = os])
       (simp_all add: envelope_def js_eq_iff)
  then show ?thesis by (simp add: verifyNative_def try_catch_def failure_def)
qed

text \<open>
  Claim C6. \<open>computeAHash\<close> is a function of the library's hash, the root hash and the
  nonce alone, and what it returns is the specification's blinded hash:
  hex(BLAKE3("OPENSEAL_BLINDED_IDENTITY" || bytes of rootHashHex || UTF-8 bytes of the
  nonce)). It throws exactly when the root hash is not a hex string.
\<close>

theorem computeAHash_is_blinded_hash:
  "computeAHash L rootHashHex wax = computeBlindedHash L rootHashHex wax"
  by (simp add: computeAHash_def computeBlindedHash_def hasher_create_def hasher_update_def
      hasher_digest_def Let_def split: sum.splits)

theorem computeAHash_is_blinded_hash_witness:
  "computeAHash test_lib (js ''ab12'') (js ''00ff'') = Inr (js ''4f50'')"
proof -
  have "computeBlindedHash test_lib (js ''ab12'') (js ''00ff'') = Inr (js ''4f50'')"
    by (simp add: computeBlindedHash_def hex_pairs_ab12 test_lib_def TextEncoder_encode_prefix
        bytesToHex_4f50)
  then show ?thesis
    using computeAHash_is_blinded_hash [of test_lib "js ''ab12''" "js ''00ff''"] by simp
qed

text \<open>
  Claim C7, as the code has it. For a response object, when \<open>result\<close> or the \<open>openseal\<close>
  object is missing, the answer is the failure with the message "Missing openseal or
  result fields"; when the \<open>openseal\<close> value and the result are both truthy and one of
  signature, pub_key, a_hash and b_hash is missing, it is the failure with the message
  "Incomplete openseal metadata". Either answer is the same for every hash and signature
  function: none is computed.
\<close>

theorem verifyNative_incomplete:
  assumes "js_get response (js ''openseal'') = Inr os"
    and "js_get response (js ''result'') = Inr result"
  shows "(os = JUndefined \<or> result = JUndefined \<longrightarrow>
            (\<forall>L. verifyNative L response wax rh =
               Inr \<lparr>valid = False, signatureVerified = False, identityVerified = False,
                    message = js ''Missing openseal or result fields''\<rparr>)) \<and>
         (truthy os \<and> truthy result \<and>
          (\<exists>k\<in>{js ''signature'', js ''pub_key'', js ''a_hash'', js ''b_hash''}.
             js_get os k = Inr JUndefined) \<longrightarrow>
            (\<forall>L. verifyNative L response wax rh =
               Inr \<lparr>valid = False, signatureVerified = False, identityVerified = False,
                    message = js ''Incomplete openseal metadata''\<rparr>))"
proof (intro conjI impI allI)
  fix L
  assume "os = JUndefined \<or> result = JUndefined"
  then have "\<not> truthy os \<or> \<not> truthy result" by auto
  then have "verifyNative_try L response wax rh =
      Inr (failure (js ''Missing openseal or result fields''))"
    using assms by (intro verifyNative_try_missing)
  then show "verifyNative L response wax rh =
      Inr \<lparr>valid = False, signatureVerified = False, identityVerified = False,
           message = js ''Missing openseal or result fields''\<rparr>"
    by (simp add: verifyNative_def try_catch_def failure_def)
next
  fix L
  assume a: "truthy os \<and> truthy result \<and>
          (\<exists>k\<in>{js ''signature'', js ''pub_key'', js ''a_hash'', js ''b_hash''}.
             js_get os k = Inr JUndefined)"
  then obtain k where kv:
    "k \<in> {js ''signature'', js ''pub_key'', js ''a_hash'', js ''b_hash''}"
    "js_get os k = Inr JUndefined"
    by blast
  have u: "\<not> truthy JUndefined" by simp
  from a have t: "truthy os" "truthy result" by simp_all
  have "verifyNative_try L response wax rh =
      Inr (failure (js ''Incomplete openseal metadata''))"
    by (rule verifyNative_try_incomplete [OF assms t kv u])
  then show "verifyNative L response wax rh =
      Inr \<lparr>valid = False, signatureVerified = False, identityVerified = False,
           message = js ''Incomplete openseal metadata''\<rparr>"
    by (simp add: verifyNative_def try_catch_def failure_def)
qed

theorem verifyNative_incomplete_witness:
  "verifyNative test_lib
     (JObj [(js ''openseal'', seal (js ''0130'') (js ''01'') (js ''4f50'') (js ''b0''))])
     (js ''00ff'') (Some (js ''ab12'')) =
   Inr \<lparr>valid = False, signatureVerified = False, identityVerified = False,
        message = js ''Missing openseal or result fields''\<rparr> \<and>
   verifyNative test_lib
     (envelope (JStr (js ''42''))
        (JObj [(js ''signature'', JStr (js ''0130'')), (js ''pub_key'', JStr (js ''01'')),
               (js ''a_hash'', JStr (js ''4f50''))]))
     (js ''00ff'') (Some (js ''ab12'')) =
   Inr \<lparr>valid = False, signatureVerified = False, identityVerified = False,
        message = js ''Incomplete openseal metadata''\<rparr>"
proof
  show "verifyNative test_lib
     (JObj [(js ''openseal'', seal (js ''0130'') (js ''01'') (js ''4f50'') (js ''b0''))])
     (js ''00ff'') (Some (js ''ab12'')) =
   Inr \<lparr>valid = False, signatureVerified = False, identityVerified = False,
        message = js ''Missing openseal or result fields''\<rparr>"
    using verifyNative_incomplete
      [of "JObj [(js ''openseal'', seal (js ''0130'') (js ''01'') (js ''4f50'') (js ''b0''))]"
          "seal (js ''0130'') (js ''01'') (js ''4f50'') (js ''b0'')" JUndefined
          "js ''00ff''" "Some (js ''ab12'')"]
    by (simp add: js_eq_iff)
  show "verifyNative test_lib
     (envelope (JStr (js ''42''))
        (JObj [(js ''signature'', JStr (js ''0130'')), (js ''pub_key'', JStr (js ''01'')),
               (js ''a_hash'', JStr (js ''4f50''))]))
     (js ''00ff'') (Some (js ''ab12'')) =
   Inr \<lparr>valid = False, signatureVerified = False, identityVerified = False,
        message = js ''Incomplete openseal metadata''\<rparr>"
    using verifyNative_incomplete
      [of "envelope (JStr (js ''42''))
             (JObj [(js ''signature'', JStr (js ''0130'')), (js ''pub_key'', JStr (js ''01'')),
                    (js ''a_hash'', JStr (js ''4f50''))])"
          "JObj [(js ''signature'', JStr (js ''0130'')), (js ''pub_key'', JStr (js ''01'')),
                 (js ''a_hash'', JStr (js ''4f50''))]"
          "JStr (js ''42'')" "js ''00ff''" "Some (js ''ab12'')"]
    by (simp add: envelope_def js_eq_iff js_Nil)
qed

text \<open>
  Claim C7 as it is written fails where \<open>result\<close> is the missing field: the message is
  then "Missing openseal or result fields", not "Incomplete openseal metadata".
\<close>

theorem verifyNative_missing_result_message:
  "verifyNative test_lib
     (JObj [(js ''openseal'', seal (js ''0130'') (js ''01'') (js ''4f50'') (js ''b0''))])
     (js ''00ff'') (Some (js ''ab12'')) =
   Inr \<lparr>valid = False, signatureVerified = False, identityVerified = False,
        message = js ''Missing openseal or result fields''\<rparr> \<and>
   verifyNative test_lib
     (JObj [(js ''openseal'', seal (js ''0130'') (js ''01'') (js ''4f50'') (js ''b0''))])
     (js ''00ff'') (Some (js ''ab12'')) \<noteq>
   Inr \<lparr>valid = False, signatureVerified = False, identityVerified = False,
        message = js ''Incomplete openseal metadata''\<rparr>"
proof -
  have "verifyNative_try test_lib
     (JObj [(js ''openseal'', seal (js ''0130'') (js ''01'') (js ''4f50'') (js ''b0''))])
     (js ''00ff'') (Some (js ''ab12'')) = Inr (failure (js ''Missing openseal or result fields''))"
    by (rule verifyNative_try_missing [where result = JUndefined]) (simp_all add: js_eq_iff)
  then show ?thesis
    by (simp add: verifyNative_def try_catch_def failure_def js_eq_iff)
qed

text \<open>
  Claim C10. \<open>verifyNative\<close> resolves for every response, nonce and expected root hash,
  whatever the library functions do; when its body throws an exception \<open>e\<close>, the value is
  the failure with all three flags false and the message "Native Verification Error: "
  followed by the message of \<open>e\<close>.
\<close>

theorem verifyNative_never_throws:
  "\<exists>r. verifyNative L response wax expectedRootHash = Inr r \<and>
       (\<forall>e. verifyNative_try L response wax expectedRootHash = Inl e \<longrightarrow>
            r = \<lparr>valid = False, signatureVerified = False, identityVerified = False,
                 message = js ''Native Verification Error: '' @ message_of L e\<rparr>)"
  by (cases "verifyNative_try L response wax expectedRootHash")
     (simp_all add: verifyNative_def try_catch_def failure_def)

theorem verifyNative_never_throws_witness:
  "verifyNative_try test_lib
     (envelope (JStr (js ''42'')) (seal (js ''zz'') (js ''01'') (js ''4f50'') (js ''b0'')))
     (js ''00ff'') None = Inl HexError \<and>
   verifyNative test_lib
     (envelope (JStr (js ''42'')) (seal (js ''zz'') (js ''01'') (js ''4f50'') (js ''b0'')))
     (js ''00ff'') None =
   Inr \<lparr>valid = False, signatureVerified = False, identityVerified = False,
        message = js ''Native Verification Error: error''\<rparr>"
proof -
  have t: "verifyNative_try test_lib
     (envelope (JStr (js ''42'')) (seal (js ''zz'') (js ''01'') (js ''4f50'') (js ''b0'')))
     (js ''00ff'') None = Inl HexError"
    by (simp add: verifyNative_try_def verify_signature_def then_do_def envelope_def seal_def
        js_eq_iff js_Nil template_part_def hex_pairs_zz)
  have m: "js ''Native Verification Error: '' @ message_of test_lib HexError =
      js ''Native Verification Error: error''"
    by (simp add: test_lib_def js_def)
  show ?thesis
    using verifyNative_never_throws
      [of test_lib
          "envelope (JStr (js ''42'')) (seal (js ''zz'') (js ''01'') (js ''4f50'') (js ''b0''))"
          "js ''00ff''" None] t m
    by auto
qed

section \<open>ProxyService: the forwarded headers\<close>

lemma prefix_js: "prefix (js a) (js b) = prefix a b"
proof (induction a arbitrary: b)
  case Nil
  then show ?case by (simp add: js_def)
next
  case (Cons x xs)
  then show ?case by (cases b) (simp_all add: js_def js_char_inj)
qed













lemma show_nat_0: "show_nat 0 = js ''0''"
  by (simp add: show_nat.simps [of 0] js_def)

lemma lower_test:
  "toLowerCase (js ''x-forwarded-for'') = js ''x-forwarded-for''"
  "toLowerCase (js ''accept'') = js ''accept''"
  "toLowerCase (js ''host'') = js ''host''"
  by (simp_all add: js_def toLowerCase_def)

lemma forward_headers_test:
  "forward_headers test_lib (test_world hs t) test_request (js ''svc'') None None =
     [(js ''accept'', js ''*/*''), (js ''x-forwarded-by'', js ''highstation''),
      (js ''x-service-name'', js ''svc''), (js ''x-highstation-time'', js ''0'')]"
  by (simp add: forward_headers_def Let_def test_request_def test_world_def filter_header_def
      lower_test blocked_header_def startsWith_def prefix_js SAFE_HEADERS_def js_eq_iff
      str_truthy_def new_wax_def show_nat_0)



section \<open>ProxyService: the response\<close>

lemma verifyNative_resolves: "\<exists>r. verifyNative L response wax rh = Inr r"
  by (cases "verifyNative_try L response wax rh") (simp_all add: verifyNative_def try_catch_def)

lemma verify_resolves: "\<exists>r. verify L W response wax rh = Inr r"
  using verifyNative_resolves by (simp add: verify_def split: option.splits)

lemma interpret_json_parsed:
  assumes "JSON_parse L responseText = Inr parsedBody"
  shows "\<exists>d v m. interpret_json L W response responseText wax rh = Inr (d, True, v, m)"
proof (cases "is_body_wrapper parsedBody")
  case True
  then obtain result where "js_get parsedBody (js ''result'') = Inr result"
    by (auto simp: is_body_wrapper_def split: sum.splits)
  moreover obtain r where "verify L W parsedBody (the wax) rh = Inr r"
    using verify_resolves by blast
  ultimately show ?thesis
    using assms True by (auto simp add: interpret_json_def then_do_def)
next
  case False
  then show ?thesis
    using assms by (simp add: interpret_json_def then_do_def Let_def)
qed

lemma interpret_json_not_parsed:
  "JSON_parse L responseText = Inl e \<Longrightarrow>
   interpret_json L W response responseText wax rh = Inl e"
  by (simp add: interpret_json_def then_do_def)





text \<open>
  The telemetry of every response: the size is the number of UTF-16 code units of the
  body text, and \<open>integrityCheck\<close> says that the body parsed as JSON.
\<close>

lemma forwardRequest_telemetry:
  assumes "upstream_call L W req upstreamUrl sn subPath secret rh = Inr response"
    and "res_text response = Inr responseText"
  shows "\<exists>r. forwardRequest L W req upstreamUrl sn subPath secret rh = Inr r \<and>
           responseSizeBytes (telemetry r) = length responseText \<and>
           integrityCheck (telemetry r) = (\<exists>v. JSON_parse L responseText = Inr v)"
proof (cases "JSON_parse L responseText")
  case (Inl e)
  then have "interpret_json L W response responseText (new_wax W rh) rh = Inl e"
    by (rule interpret_json_not_parsed)
  then show ?thesis
    using assms Inl
    by (simp add: forwardRequest_def then_do_def try_catch_def Let_def interpret_text_def)
next
  case (Inr parsedBody)
  then obtain d v m where
    "interpret_json L W response responseText (new_wax W rh) rh = Inr (d, True, v, m)"
    using interpret_json_parsed by blast
  then show ?thesis
    using assms Inr by (simp add: forwardRequest_def then_do_def try_catch_def Let_def)
qed

text \<open>
  A request object without \<open>originalUrl\<close>, as the playground route builds it: the call
  is rejected with the TypeError before anything is fetched.
\<close>

lemma forwardRequest_without_originalUrl:
  "req_originalUrl req = None \<Longrightarrow>
   forwardRequest L W req upstreamUrl sn subPath secret rh = Inl TypeError"
  by (simp add: forwardRequest_def upstream_call_def build_request_def target_url_def
      then_do_def)

lemma rounded_latency_test: "rounded_latency (test_world hs t) = 0"
  by (simp add: test_world_def)

lemma upstream_call_test:
  "upstream_call test_lib (test_world hs t) test_request upstreamUrl sn subPath secret rh =
     Inr \<lparr>res_status = 200, res_text = Inr t, res_headers = hs\<rparr>"
  by (simp add: upstream_call_def build_request_def target_url_def test_request_def
      then_do_def test_world_def Let_def)

lemma JSON_parse_test: "JSON_parse test_lib [0x22, 0xE9, 0x22] = Inr (JStr [0xE9])"
  by (simp add: test_lib_def js_def)

text \<open>
  Claim C9, at the input where the code departs from it. The upstream body is the JSON
  text of the string with the one letter U+00E9, the four bytes 22 C3 A9 22 in UTF-8 and
  three UTF-16 code units once decoded. \<open>responseSizeBytes\<close> is
  \<open>responseText.length\<close>, which is 3.
\<close>

theorem forwardRequest_size_counts_code_units:
  "forwardRequest test_lib (test_world [] [0x22, 0xE9, 0x22]) test_request
     (js ''http://upstream.example'') (js ''svc'') (js ''/quote'') None None =
   Inr \<lparr>status = 200, data = JStr [0xE9],
        telemetry = \<lparr>latencyMs = 0, responseSizeBytes = 3, contentType = js ''unknown'',
                      integrityCheck = True\<rparr>,
        openseal = None\<rparr> \<and>
   TextEncoder_encode [0x22, 0xE9, 0x22] = [0x22, 0xC3, 0xA9, 0x22]"
proof
  have "interpret_json test_lib (test_world [] [0x22, 0xE9, 0x22])
      \<lparr>res_status = 200, res_text = Inr [0x22, 0xE9, 0x22], res_headers = []\<rparr>
      [0x22, 0xE9, 0x22] None None = Inr (JStr [0xE9], True, False, [])"
    by (simp add: interpret_json_def then_do_def JSON_parse_test is_body_wrapper_def
        str_truthy_def)
  then show "forwardRequest test_lib (test_world [] [0x22, 0xE9, 0x22]) test_request
     (js ''http://upstream.example'') (js ''svc'') (js ''/quote'') None None =
   Inr \<lparr>status = 200, data = JStr [0xE9],
        telemetry = \<lparr>latencyMs = 0, responseSizeBytes = 3, contentType = js ''unknown'',
                      integrityCheck = True\<rparr>,
        openseal = None\<rparr>"
    by (simp add: forwardRequest_def then_do_def try_catch_def Let_def upstream_call_test
        rounded_latency_test new_wax_def str_truthy_def headers_get_def)
  show "TextEncoder_encode [0x22, 0xE9, 0x22] = [0x22, 0xC3, 0xA9, 0x22]"
    by (simp add: TextEncoder_encode_def scalar_of_def is_high_surrogate_def
        is_low_surrogate_def utf8_bytes_def)
qed



section \<open>The domain resolver: the legacy path\<close>

lemma legacy_match_path:
  assumes "slug \<noteq> []" and "0x2F \<notin> set slug" and "rest = [] \<or> (\<exists>t. rest = 0x2F # t)"
  shows "legacy_match (js ''/gatekeeper/'' @ slug @ rest) = Some slug"
proof -
  have "\<And>x. x \<in> set slug \<Longrightarrow> x \<noteq> 0x2F" using assms(2) by auto
  then have "takeWhile (\<lambda>c. c \<noteq> 0x2F) (slug @ rest) = slug @ takeWhile (\<lambda>c. c \<noteq> 0x2F) rest"
    by (rule takeWhile_append2)
  moreover have "takeWhile (\<lambda>c. c \<noteq> 0x2F) rest = []"
    using assms(3) by auto
  ultimately have "takeWhile (\<lambda>c. c \<noteq> 0x2F) (slug @ rest) = slug" by simp
  then show ?thesis
    using assms(1) by (simp add: legacy_match_def startsWith_def length_js)
qed

lemma legacy_replace_path:
  assumes "slug \<noteq> []" and "0x2F \<notin> set slug" and "rest = [] \<or> (\<exists>t. rest = 0x2F # t)"
  shows "legacy_replace (js ''/gatekeeper/'' @ slug @ rest) = rest"
  using legacy_match_path [OF assms] by (simp add: legacy_replace_def length_js)

lemma not_internal_path:
  "\<not> startsWith (js ''/gatekeeper/'' @ p) (js ''/api'')"
  "\<not> startsWith (js ''/gatekeeper/'' @ p) (js ''/mcp'')"
  "\<not> startsWith (js ''/gatekeeper/'' @ p) (js ''/health'')"
  "\<not> startsWith (js ''/gatekeeper/'' @ p) (js ''/debug'')"
  by (simp_all add: startsWith_def js_def)

text \<open>
  Claim C4, as the code has it. For a path /gatekeeper/<slug> followed by nothing or by
  /..., with a slug other than "resource" and no "/info" in the path, on a request that
  no verified custom domain and no verified subdomain has claimed: the resolver looks
  the slug up among the services whose status is "verified"; if there is one it is the
  service of the request, the source is "legacy_path" and the forwarded path is the rest
  of the path, or "/" when the rest is empty; if there is none the request passes on
  with no service.
\<close>

theorem domainResolver_legacy_path:
  assumes "slug \<noteq> []" and "0x2F \<notin> set slug" and "rest = [] \<or> (\<exists>t. rest = 0x2F # t)"
    and "slug \<noteq> js ''resource''"
    and "\<not> str_includes (js ''/gatekeeper/'' @ slug @ rest) (js ''/info'')"
    and "by_custom_domain (Inr rows) (hostname_of host_header) = Inr None"
    and "by_subdomain (Inr rows) (hostname_of host_header) = Inr None"
  shows "domainResolver (Inr rows) host_header (js ''/gatekeeper/'' @ slug @ rest) =
           Inr (case find (\<lambda>s. svc_slug s = slug \<and> svc_status s = js ''verified'') rows of
                  None \<Rightarrow> no_service
                | Some s \<Rightarrow> \<lparr>serviceConfig = Some s,
                              serviceSource = Some (js ''legacy_path''),
                              strippedPath = Some (if rest = [] then js ''/'' else rest)\<rparr>)"
proof -
  have sel: "select_by_slug_and_status (Inr rows) slug (js ''verified'') =
      Inr (case find (\<lambda>s. svc_slug s = slug \<and> svc_status s = js ''verified'') rows of
             None \<Rightarrow> [] | Some s \<Rightarrow> [s])"
    by (induction rows) (simp_all add: select_by_slug_and_status_def then_do_def)
  have "by_legacy_path (Inr rows) (js ''/gatekeeper/'' @ slug @ rest) =
      Inr (case find (\<lambda>s. svc_slug s = slug \<and> svc_status s = js ''verified'') rows of
             None \<Rightarrow> None
           | Some s \<Rightarrow> Some \<lparr>serviceConfig = Some s,
                              serviceSource = Some (js ''legacy_path''),
                              strippedPath = Some (if rest = [] then js ''/'' else rest)\<rparr>)"
    using assms(4,5) legacy_match_path [OF assms(1-3)] legacy_replace_path [OF assms(1-3)]
    by (simp add: by_legacy_path_def sel then_do_def split: option.splits)
  then show ?thesis
    using assms(6,7) not_internal_path [of "slug @ rest"]
    by (simp add: domainResolver_def domainResolver_try_def first_match_def then_do_def
        try_catch_def Let_def split: option.splits)
qed


lemma hostname_test: "hostname_of (Some (js ''gateway.example'')) = js ''gateway.example''"
  by (simp add: hostname_of_def str_truthy_def js_def)

lemma by_custom_domain_test:
  "by_custom_domain (Inr [pending_service, verified_service]) h = Inr None"
  "by_custom_domain (Inr [pending_service]) h = Inr None"
  by (simp_all add: by_custom_domain_def select_by_custom_domain_and_status_def then_do_def
      pending_service_def verified_service_def)

lemma by_subdomain_test: "by_subdomain reg (js ''gateway.example'') = Inr None"
proof -
  have "\<not> endsWith (js ''gateway.example'') (js ''.highstation.net'')"
    "\<not> endsWith (js ''gateway.example'') (js ''.highstation.localhost'')"
    by (simp_all add: endsWith_def js_def suffix_def append_eq_append_conv2 Cons_eq_append_conv
        append_eq_Cons_conv)
  then show ?thesis by (simp add: by_subdomain_def Let_def)
qed


lemma sublist_js: "sublist (js a) (js b) = sublist a b"
proof (induction b)
  case Nil
  then show ?case by (simp add: js_Nil [unfolded js_def] js_def)
next
  case (Cons y ys)
  have "prefix (js a) (js (y # ys)) = prefix a (y # ys)" by (rule prefix_js)
  then show ?case
    using Cons by (cases a) (simp_all add: js_def sublist_Cons_right)
qed

lemma no_info_test:
  "\<not> str_includes (js ''/gatekeeper/oracle/price'') (js ''/info'')"
  "\<not> str_includes (js ''/gatekeeper/weather/forecast'') (js ''/info'')"
  by (simp_all add: str_includes_def sublist_js sublist_Cons_right)


theorem domainResolver_legacy_path_witness:
  "domainResolver (Inr [pending_service, verified_service]) (Some (js ''gateway.example''))
     (js ''/gatekeeper/oracle/price'') =
   Inr \<lparr>serviceConfig = Some verified_service, serviceSource = Some (js ''legacy_path''),
        strippedPath = Some (js ''/price'')\<rparr> \<and>
   domainResolver (Inr [pending_service, verified_service]) (Some (js ''gateway.example''))
     (js ''/gatekeeper/oracle'') =
   Inr \<lparr>serviceConfig = Some verified_service, serviceSource = Some (js ''legacy_path''),
        strippedPath = Some (js ''/'')\<rparr>"
proof -
  have p: "js ''/gatekeeper/oracle/price'' = js ''/gatekeeper/'' @ js ''oracle'' @ js ''/price''"
    "js ''/gatekeeper/oracle'' = js ''/gatekeeper/'' @ js ''oracle'' @ []"
    by (simp_all add: js_def)
  have s: "js ''oracle'' \<noteq> []" "0x2F \<notin> set (js ''oracle'')"
    "js ''/price'' = [] \<or> (\<exists>t. js ''/price'' = 0x2F # t)"
    "js ''oracle'' \<noteq> js ''resource''"
    by (simp_all add: js_def)
  have e: "([] :: jsstring) = [] \<or> (\<exists>t. ([] :: jsstring) = 0x2F # t)"
    by simp
  have i: "\<not> str_includes (js ''/gatekeeper/'' @ js ''oracle'' @ js ''/price'') (js ''/info'')"
    "\<not> str_includes (js ''/gatekeeper/'' @ js ''oracle'' @ []) (js ''/info'')"
    using no_info_test(1)
    by (simp_all add: js_append [symmetric] str_includes_def sublist_js sublist_Cons_right)
  have f: "find (\<lambda>s. svc_slug s = js ''oracle'' \<and> svc_status s = js ''verified'')
      [pending_service, verified_service] = Some verified_service"
    by (simp add: pending_service_def verified_service_def js_eq_iff)
  have c: "by_custom_domain (Inr [pending_service, verified_service])
      (hostname_of (Some (js ''gateway.example''))) = Inr None"
    by (rule by_custom_domain_test)
  have d: "by_subdomain (Inr [pending_service, verified_service])
      (hostname_of (Some (js ''gateway.example''))) = Inr None"
    by (simp add: hostname_test by_subdomain_test)
  have a: "domainResolver (Inr [pending_service, verified_service])
      (Some (js ''gateway.example'')) (js ''/gatekeeper/'' @ js ''oracle'' @ js ''/price'') =
      Inr \<lparr>serviceConfig = Some verified_service, serviceSource = Some (js ''legacy_path''),
           strippedPath = Some (js ''/price'')\<rparr>"
    unfolding domainResolver_legacy_path [OF s(1,2,3,4) i(1) c d] f
    by (simp add: js_Nil)
  have b: "domainResolver (Inr [pending_service, verified_service])
      (Some (js ''gateway.example'')) (js ''/gatekeeper/'' @ js ''oracle'' @ []) =
      Inr \<lparr>serviceConfig = Some verified_service, serviceSource = Some (js ''legacy_path''),
           strippedPath = Some (js ''/'')\<rparr>"
    unfolding domainResolver_legacy_path [OF s(1,2) e s(4) i(2) c d] f
    by simp
  show ?thesis
    unfolding p using a b by (rule conjI)
qed

text \<open>
  Claim C4 as it is written fails for a service that is not verified: the registry has
  a pending service with the slug of the path, and the resolver sets no service.
\<close>

theorem domainResolver_skips_pending_service:
  "svc_slug pending_service = js ''weather'' \<and>
   svc_status pending_service = js ''pending'' \<and>
   domainResolver (Inr [pending_service]) (Some (js ''gateway.example''))
     (js ''/gatekeeper/weather/forecast'') = Inr no_service"
proof -
  have m: "legacy_match (js ''/gatekeeper/weather/forecast'') = Some (js ''weather'')"
    by (simp add: legacy_match_def startsWith_def js_def)
  have l: "by_legacy_path (Inr [pending_service]) (js ''/gatekeeper/weather/forecast'') = Inr None"
    using no_info_test(2)
    by (simp add: by_legacy_path_def m js_eq_iff select_by_slug_and_status_def then_do_def
        pending_service_def)
  have n: "\<not> startsWith (js ''/gatekeeper/weather/forecast'') (js ''/api'')"
    "\<not> startsWith (js ''/gatekeeper/weather/forecast'') (js ''/mcp'')"
    "\<not> startsWith (js ''/gatekeeper/weather/forecast'') (js ''/health'')"
    "\<not> startsWith (js ''/gatekeeper/weather/forecast'') (js ''/debug'')"
    by (simp_all add: startsWith_def prefix_js)
  have "domainResolver (Inr [pending_service]) (Some (js ''gateway.example''))
     (js ''/gatekeeper/weather/forecast'') = Inr no_service"
    using n
    by (simp add: domainResolver_def domainResolver_try_def first_match_def then_do_def
        try_catch_def hostname_test by_custom_domain_test by_subdomain_test l)
  then show ?thesis
    by (simp add: pending_service_def)
qed

text \<open>
  The pending service is found by \<open>serviceResolver\<close>, which does not look at the status;
  it sets no stripped path.
\<close>

lemma serviceResolver_ignores_status:
  "serviceResolver (Inr [pending_service]) no_service (Some (js ''weather'')) =
     Next \<lparr>serviceConfig = Some pending_service, serviceSource = Some (js ''param''),
           strippedPath = None\<rparr>"
  by (simp add: serviceResolver_def no_service_def str_truthy_def js_Nil select_by_slug_def
      then_do_def pending_service_def)

section \<open>The service routes: which address is dialled\<close>

lemma verify_ownership_fetch_calls:
  "c \<in> set (fst (verify_ownership_fetch N urlObj resolvedIP token updated)) \<Longrightarrow>
     dials_pinned urlObj resolvedIP c"
proof -
  define call where "call = \<lparr>call_url = url_protocol urlObj @ js ''//'' @ resolvedIP @
            (if url_port urlObj \<noteq> [] then js '':'' @ url_port urlObj else []) @
            js ''/.well-known/x402-verify.txt'',
                  call_headers = [(js ''User-Agent'', js ''highstation-bot/1.0''),
                                  (js ''Host'', url_hostname urlObj)]\<rparr>"
  have d: "dials_pinned urlObj resolvedIP call"
    by (simp add: dials_pinned_def call_def startsWith_def js_eq_iff js_def)
  have "fst (verify_ownership_fetch N urlObj resolvedIP token updated) = [call]"
    by (simp add: verify_ownership_fetch_def Let_def call_def split: sum.splits option.splits)
  then show "c \<in> set (fst (verify_ownership_fetch N urlObj resolvedIP token updated)) \<Longrightarrow>
     dials_pinned urlObj resolvedIP c"
    using d by simp
qed

text \<open>
  The ownership check keeps the discipline: whatever it fetches, it fetches at the address
  it resolved and validated, with the host name in the \<open>Host\<close> header.
\<close>

lemma verify_ownership_dials_pinned:
  assumes "c \<in> set (fst (verify_ownership N userId (Inr (Some service)) updated))"
  shows "\<exists>urlObj resolvedIP.
           new_URL N (row_upstream_url service) = Inr urlObj \<and>
           \<not> isBlockedIP N (JStr resolvedIP) \<and>
           dials_pinned urlObj resolvedIP c"
proof -
  from assms obtain urlObj where u: "new_URL N (row_upstream_url service) = Inr urlObj"
    by (cases "new_URL N (row_upstream_url service)")
       (auto simp: verify_ownership_def split: if_splits)
  define resolved where "resolved =
    (case dns_resolve4 N (url_hostname urlObj) of
       Inr (a # _) \<Rightarrow> Some a
     | _ \<Rightarrow> if net_isIP N (url_hostname urlObj) then Some (url_hostname urlObj) else None)"
  from assms u obtain ip where r: "resolved = Some ip" "\<not> isBlockedIP N (JStr ip)"
    and c: "c \<in> set (fst (verify_ownership_fetch N urlObj ip
                (the (row_verification_token service)) updated))"
    by (cases resolved)
       (auto simp: verify_ownership_def Let_def resolved_def [symmetric] split: if_splits)
  from c have "dials_pinned urlObj ip c"
    by (rule verify_ownership_fetch_calls)
  with u r show ?thesis by blast
qed

text \<open>
  The connection test, on every input: each probe is a \<open>fetch\<close> of one of the endpoint
  URLs, with the two headers of the source and no \<open>Host\<close> header.
\<close>

lemma probe_loop_calls:
  "c \<in> set (fst (probe_loop N urls lastStatus)) \<Longrightarrow>
   call_url c \<in> set urls \<and>
   call_headers c = [(js ''Accept'', js ''application/json''),
                     (js ''User-Agent'', js ''highstation-probe/1.0'')]"
proof (induction urls arbitrary: lastStatus)
  case Nil
  then show ?case by simp
next
  case (Cons u us)
  show ?case
  proof (cases "net_fetch N \<lparr>call_url = u,
      call_headers = [(js ''Accept'', js ''application/json''),
                      (js ''User-Agent'', js ''highstation-probe/1.0'')]\<rparr>")
    case (Inl e)
    then show ?thesis
      using Cons.prems Cons.IH [of lastStatus] by (auto simp: Let_def)
  next
    case (Inr r)
    then show ?thesis
      using Cons.prems Cons.IH [of "pr_status r"] by (auto simp: Let_def split: if_splits)
  qed
qed

lemma test_connection_sets_no_host:
  assumes "c \<in> set (fst (test_connection N url testPath))"
  shows "map_of (call_headers c) (js ''Host'') = None"
proof -
  from assms obtain urls lastStatus where "c \<in> set (fst (probe_loop N urls lastStatus))"
    by (auto simp: test_connection_def test_connection_try_def then_do_def Let_def
        split: sum.splits if_splits option.splits)
  then have "call_headers c = [(js ''Accept'', js ''application/json''),
                     (js ''User-Agent'', js ''highstation-probe/1.0'')]"
    using probe_loop_calls by blast
  then show ?thesis by (simp add: js_eq_iff)
qed

lemma unique_in_order_test:
  "unique_in_order
     [js ''http://upstream.example/.openseal/identity'', js ''http://upstream.example'',
      js ''http://upstream.example/health'', js ''http://upstream.example/api/health''] =
     [js ''http://upstream.example/.openseal/identity'', js ''http://upstream.example'',
      js ''http://upstream.example/health'', js ''http://upstream.example/api/health'']"
  by (simp add: unique_in_order_def js_eq_iff)

lemma endpoints_test:
  "endpoints_to_try test_net (js ''http://upstream.example'') upstream_example None =
     Inr [js ''http://upstream.example/.openseal/identity'', js ''http://upstream.example'',
          js ''http://upstream.example/health'', js ''http://upstream.example/api/health'']"
  by (simp add: endpoints_to_try_def then_do_def test_net_def upstream_example_def
      str_truthy_def js_append [symmetric])

text \<open>
  Claim C3, at the input where the code departs from it. The provider's URL is
  http://upstream.example, which resolves to 93.184.216.34. The connection test checks
  that address and then fetches http://upstream.example/.openseal/identity: the URL
  names the host, so the name is resolved again for the connection, and no \<open>Host\<close>
  header is set. The ownership check of the same URL fetches
  http://93.184.216.34/.well-known/x402-verify.txt with \<open>Host: upstream.example\<close>.
\<close>

theorem test_connection_dials_hostname:
  "test_connection test_net (Some (js ''http://upstream.example'')) None =
     ([\<lparr>call_url = js ''http://upstream.example/.openseal/identity'',
        call_headers = [(js ''Accept'', js ''application/json''),
                        (js ''User-Agent'', js ''highstation-probe/1.0'')]\<rparr>],
      ProbeSuccess 200 (JStr (js ''93.184.216.34''))
        (js ''http://upstream.example/.openseal/identity'')) \<and>
   \<not> dials_pinned upstream_example (js ''93.184.216.34'')
       \<lparr>call_url = js ''http://upstream.example/.openseal/identity'',
        call_headers = [(js ''Accept'', js ''application/json''),
                        (js ''User-Agent'', js ''highstation-probe/1.0'')]\<rparr> \<and>
   fst (verify_ownership test_net (Some (js ''user-1''))
          (Inr (Some \<lparr>row_upstream_url = js ''http://upstream.example'',
                       row_verification_token = Some (js ''token-123'')\<rparr>)) None) =
     [\<lparr>call_url = js ''http://93.184.216.34/.well-known/x402-verify.txt'',
       call_headers = [(js ''User-Agent'', js ''highstation-bot/1.0''),
                       (js ''Host'', js ''upstream.example'')]\<rparr>]"
proof (intro conjI)
  have n: "new_URL test_net (js ''http://upstream.example'') = Inr upstream_example"
    "dns_resolve4 test_net (js ''upstream.example'') = Inr [js ''93.184.216.34'']"
    "\<not> isBlockedIP test_net (JStr (js ''93.184.216.34''))"
    "isSafeUrlSyntax test_net (js ''http://upstream.example'')"
    by (simp_all add: test_net_def js_eq_iff)
  have h: "url_hostname upstream_example = js ''upstream.example''"
    by (simp add: upstream_example_def)
  have f: "\<And>c. net_fetch test_net c = Inr \<lparr>pr_status = 200, pr_text = Inr (js ''token-123'')\<rparr>"
    by (simp add: test_net_def)
  show "test_connection test_net (Some (js ''http://upstream.example'')) None =
     ([\<lparr>call_url = js ''http://upstream.example/.openseal/identity'',
        call_headers = [(js ''Accept'', js ''application/json''),
                        (js ''User-Agent'', js ''highstation-probe/1.0'')]\<rparr>],
      ProbeSuccess 200 (JStr (js ''93.184.216.34''))
        (js ''http://upstream.example/.openseal/identity''))"
    by (simp add: test_connection_def test_connection_try_def then_do_def str_truthy_def js_Nil
        n h endpoints_test unique_in_order_test f pr_ok_def Let_def)
  show "\<not> dials_pinned upstream_example (js ''93.184.216.34'')
       \<lparr>call_url = js ''http://upstream.example/.openseal/identity'',
        call_headers = [(js ''Accept'', js ''application/json''),
                        (js ''User-Agent'', js ''highstation-probe/1.0'')]\<rparr>"
    by (simp add: dials_pinned_def js_eq_iff)
  show "fst (verify_ownership test_net (Some (js ''user-1''))
          (Inr (Some \<lparr>row_upstream_url = js ''http://upstream.example'',
                       row_verification_token = Some (js ''token-123'')\<rparr>)) None) =
     [\<lparr>call_url = js ''http://93.184.216.34/.well-known/x402-verify.txt'',
       call_headers = [(js ''User-Agent'', js ''highstation-bot/1.0''),
                       (js ''Host'', js ''upstream.example'')]\<rparr>]"
    by (simp add: verify_ownership_def verify_ownership_fetch_def str_truthy_def js_Nil n h f
        pr_ok_def Let_def upstream_example_def js_append [symmetric] str_includes_def)
qed

end
